theory Spec2Isabelle
  imports Main "HOL-Library.Word"
begin

section \<open>Data model\<close>

text \<open>
  Errors raised by the code, as values. \<open>NotOrderComponents\<close> is
  \<^verbatim>\<open>new Error("Not orderComponents, give me order")\<close>, \<open>NotOrder\<close> is
  \<^verbatim>\<open>new Error("Not order, Give me orderComponents")\<close>, \<open>UnexpectedItemType t\<close> is
  \<^verbatim>\<open>new Error(`Unexpected itemType: ${t}`)\<close>. \<open>TypeError\<close> is what JavaScript raises
  when a property of \<^verbatim>\<open>undefined\<close> is read, \<open>Overflow\<close> what the BigNumber of ethers
  raises in \<^verbatim>\<open>toNumber()\<close>, \<open>InvalidDecimal\<close> what \<^verbatim>\<open>parseEther\<close> raises on a
  string that is no decimal number (the example environment below uses it).
\<close>

datatype js_error =
    NotOrderComponents
  | NotOrder
  | UnexpectedItemType nat
  | TypeError
  | Overflow nat
  | InvalidDecimal

text \<open>
  An offer or consideration item as \<^verbatim>\<open>getOfferOrConsiderationItem\<close> builds it. The item
  type is the number the code stores (0 Native, 1 ERC20, 2 ERC721, 3 ERC1155,
  4 ERC721 with criteria, 5 ERC1155 with criteria; nothing keeps other numbers out).
  BigNumber fields are the natural number they hold. \<open>recipient\<close> is \<open>None\<close> when
  the object has no such property.
\<close>

record item =
  itemType :: nat
  token :: string
  identifierOrCriteria :: nat
  startAmount :: nat
  endAmount :: nat
  recipient :: "string option"

record order_parameters =
  offerer :: string
  zone :: string
  offer :: "item list"
  consideration :: "item list"
  totalOriginalConsiderationItems :: nat
  orderType :: nat
  zoneHash :: string
  salt :: string
  conduitKey :: string
  startTime :: nat
  endTime :: nat

text \<open>
  An Order (\<^verbatim>\<open>{parameters, signature, numerator, denominator, extraData}\<close>); the last
  three are \<open>None\<close> when the object does not carry them.
\<close>

record order =
  parameters :: order_parameters
  signature :: string
  numerator :: "nat option"
  denominator :: "nat option"
  extraData :: "string option"

text \<open>
  A fulfillment component \<^verbatim>\<open>[orderIndex, itemIndex]\<close> and one element
  \<^verbatim>\<open>[offerArr, considerationArr]\<close> of the array the matcher builds.
\<close>

type_synonym component = "nat \<times> nat"
type_synonym fentry = "component list \<times> component list"

section \<open>Cross-order matcher (getFulFillmentArrByOrder)\<close>

text \<open>
  \<^verbatim>\<open>BigNumber.toNumber()\<close> of ethers v5: the value when it fits in 53 bits,
  an overflow error otherwise.
\<close>

definition toNumber :: "nat \<Rightarrow> js_error + nat" where
  "toNumber n = (if n < 2 ^ 53 then Inr n else Inl (Overflow n))"

text \<open>
  The test guarding \<^verbatim>\<open>continue\<close> in each of the four inner loops:
  \<^verbatim>\<open>oToken !== c.token || (oItemType !== 1 && oId.toNumber() !== c.identifierOrCriteria.toNumber())\<close>,
  with JavaScript's left-to-right short-circuit evaluation. \<open>Inr True\<close> means the
  consideration item is skipped.
\<close>

definition skipItem :: "item \<Rightarrow> item \<Rightarrow> js_error + bool" where
  "skipItem oItem c =
     (if token oItem \<noteq> token c then Inr True
      else if itemType oItem \<noteq> 1 then
        (case toNumber (identifierOrCriteria oItem) of
           Inl e \<Rightarrow> Inl e
         | Inr a \<Rightarrow>
             (case toNumber (identifierOrCriteria c) of
                Inl e \<Rightarrow> Inl e
              | Inr b \<Rightarrow> Inr (a \<noteq> b)))
      else Inr False)"

text \<open>
  One inner \<^verbatim>\<open>for\<close> loop. \<open>oRef\<close> is the pair pushed on the offer side, \<open>cOrd\<close> the
  order index pushed on the consideration side, the list is what remains of the
  consideration list from index \<open>cI\<close> on, \<open>fArr\<close> the array built so far.
  The four loops of the source are this one at
  \<open>((0, oI), 1)\<close>, \<open>((0, oI), 0)\<close>, \<open>((1, oTMI), 0)\<close> and \<open>((1, oTMI), 1)\<close>.
\<close>

fun scanLoop ::
  "component \<Rightarrow> nat \<Rightarrow> item \<Rightarrow> item list \<Rightarrow> nat \<Rightarrow> fentry list \<Rightarrow> js_error + fentry list"
where
  "scanLoop oRef cOrd oItem [] cI fArr = Inr fArr"
| "scanLoop oRef cOrd oItem (c # cs) cI fArr =
     (case skipItem oItem c of
        Inl e \<Rightarrow> Inl e
      | Inr skip \<Rightarrow>
          if skip then scanLoop oRef cOrd oItem cs (Suc cI) fArr
          else if itemType oItem \<noteq> 1 then Inr (fArr @ [([oRef], [(cOrd, cI)])])
          else scanLoop oRef cOrd oItem cs (Suc cI) (fArr @ [([oRef], [(cOrd, cI)])]))"

text \<open>
  One outer \<^verbatim>\<open>for\<close> loop over the offer items of the order with index \<open>ordO\<close>, from
  index \<open>oI\<close> on: the scan of the other order's consideration list \<open>cnOther\<close>
  (order index \<open>ordC\<close>), then \<^verbatim>\<open>if (oItemType !== 1) continue;\<close>, then the scan of the
  order's own consideration list \<open>cnOwn\<close>.
\<close>

fun offerLoop ::
  "nat \<Rightarrow> item list \<Rightarrow> nat \<Rightarrow> nat \<Rightarrow> item list \<Rightarrow> item list \<Rightarrow> fentry list
     \<Rightarrow> js_error + fentry list"
where
  "offerLoop ordO [] oI ordC cnOther cnOwn fArr = Inr fArr"
| "offerLoop ordO (oItem # os) oI ordC cnOther cnOwn fArr =
     (case scanLoop (ordO, oI) ordC oItem cnOther 0 fArr of
        Inl e \<Rightarrow> Inl e
      | Inr fArr1 \<Rightarrow>
          if itemType oItem \<noteq> 1 then offerLoop ordO os (Suc oI) ordC cnOther cnOwn fArr1
          else
            (case scanLoop (ordO, oI) ordO oItem cnOwn 0 fArr1 of
               Inl e \<Rightarrow> Inl e
             | Inr fArr2 \<Rightarrow> offerLoop ordO os (Suc oI) ordC cnOther cnOwn fArr2))"

definition getFulFillmentArrByOrder :: "order \<Rightarrow> order \<Rightarrow> js_error + fentry list" where
  "getFulFillmentArrByOrder ord orderToMatch =
     (let cn = consideration (parameters ord);
          cnToMatch = consideration (parameters orderToMatch)
      in case offerLoop 0 (offer (parameters ord)) 0 1 cnToMatch cn [] of
           Inl e \<Rightarrow> Inl e
         | Inr fArr \<Rightarrow> offerLoop 1 (offer (parameters orderToMatch)) 0 0 cn cnToMatch fArr)"

text \<open>
  The matcher described without loops, for the theorems below. \<open>candidate\<close> is the
  match test on items whose identifiers \<^verbatim>\<open>toNumber()\<close> can read; \<open>emitted oItem cI cs\<close>
  lists the indices (counted from \<open>cI\<close>) one scan records: every candidate for an ERC20
  offer item, the first candidate only for any other; \<open>itemPass\<close> is what one offer
  item contributes, \<open>orderPass\<close> what one order's offer list contributes.
\<close>

definition candidate :: "item \<Rightarrow> item \<Rightarrow> bool" where
  "candidate oItem c \<longleftrightarrow>
     token oItem = token c \<and>
     (itemType oItem = 1 \<or> identifierOrCriteria oItem = identifierOrCriteria c)"

definition candidates :: "item \<Rightarrow> nat \<Rightarrow> item list \<Rightarrow> nat list" where
  "candidates oItem cI cs = map fst (filter (\<lambda>p. candidate oItem (snd p)) (enumerate cI cs))"

definition emitted :: "item \<Rightarrow> nat \<Rightarrow> item list \<Rightarrow> nat list" where
  "emitted oItem cI cs =
     (if itemType oItem = 1 then candidates oItem cI cs else take 1 (candidates oItem cI cs))"

definition entries :: "component \<Rightarrow> nat \<Rightarrow> nat list \<Rightarrow> fentry list" where
  "entries oRef cOrd js = map (\<lambda>j. ([oRef], [(cOrd, j)])) js"

definition itemPass :: "nat \<Rightarrow> nat \<Rightarrow> item list \<Rightarrow> item list \<Rightarrow> nat \<times> item \<Rightarrow> fentry list" where
  "itemPass ordO ordC cnOther cnOwn p =
     entries (ordO, fst p) ordC (emitted (snd p) 0 cnOther) @
     (if itemType (snd p) = 1 then entries (ordO, fst p) ordO (emitted (snd p) 0 cnOwn) else [])"

definition orderPass :: "nat \<Rightarrow> item list \<Rightarrow> nat \<Rightarrow> item list \<Rightarrow> item list \<Rightarrow> fentry list" where
  "orderPass ordO os ordC cnOther cnOwn =
     concat (map (itemPass ordO ordC cnOther cnOwn) (enumerate 0 os))"

definition safeItem :: "item \<Rightarrow> bool" where
  "safeItem x \<longleftrightarrow> identifierOrCriteria x < 2 ^ 53"

definition safeScan :: "item list \<Rightarrow> item list \<Rightarrow> bool" where
  "safeScan os cs \<longleftrightarrow>
     (\<forall>oItem\<in>set os. itemType oItem = 1 \<or> (safeItem oItem \<and> (\<forall>c\<in>set cs. safeItem c)))"



text \<open>The same order with other item types written into its consideration items.\<close>

definition retype :: "(item \<Rightarrow> nat) \<Rightarrow> item list \<Rightarrow> item list" where
  "retype f cs = map (\<lambda>c. c\<lparr>itemType := f c\<rparr>) cs"

definition retypeConsideration :: "(item \<Rightarrow> nat) \<Rightarrow> order \<Rightarrow> order" where
  "retypeConsideration f ord =
     ord\<lparr>parameters :=
           (parameters ord)\<lparr>consideration := retype f (consideration (parameters ord))\<rparr>\<rparr>"


definition scanPass :: "nat \<Rightarrow> item list \<Rightarrow> nat \<Rightarrow> item list \<Rightarrow> fentry list" where
  "scanPass ordO os ordC cs =
     concat (map (\<lambda>p. entries (ordO, fst p) ordC (emitted (snd p) 0 cs)) (enumerate 0 os))"

definition claimedPasses :: "order \<Rightarrow> order \<Rightarrow> fentry list" where
  "claimedPasses a b =
     scanPass 0 (offer (parameters a)) 1 (consideration (parameters b)) @
     scanPass 0 (offer (parameters a)) 0 (consideration (parameters a)) @
     scanPass 1 (offer (parameters b)) 0 (consideration (parameters a)) @
     scanPass 1 (offer (parameters b)) 1 (consideration (parameters b))"

section \<open>Fulfillment component encoder (getFulfillment)\<close>

record fulfillment_component =
  orderIndex :: nat
  itemIndex :: nat

record fulfillment =
  offerComponents :: "fulfillment_component list"
  considerationComponents :: "fulfillment_component list"

definition toFulfillmentComponents :: "component list \<Rightarrow> fulfillment_component list" where
  "toFulfillmentComponents arr = map (\<lambda>p. \<lparr>orderIndex = fst p, itemIndex = snd p\<rparr>) arr"

definition toFulfillment :: "component list \<Rightarrow> component list \<Rightarrow> fulfillment" where
  "toFulfillment offerArr considerationsArr =
     \<lparr>offerComponents = toFulfillmentComponents offerArr,
      considerationComponents = toFulfillmentComponents considerationsArr\<rparr>"

text \<open>\<open>None\<close> is a call without argument, which takes the default array of the source.\<close>

definition getFulfillment :: "fentry list option \<Rightarrow> fulfillment list" where
  "getFulfillment arrArg =
     (let arr = (case arrArg of
                   None \<Rightarrow> [([(0, 0)], [(1, 0)]), ([(1, 0)], [(0, 0)]),
                            ([(1, 0)], [(0, 1)]), ([(1, 0)], [(0, 2)])]
                 | Some a \<Rightarrow> a)
      in map (\<lambda>e. toFulfillment (fst e) (snd e)) arr)"

section \<open>Calls to the settlement contract\<close>

text \<open>
  An Order Components value is the order parameters with a counter. The counter is what
  the caller put there: a JavaScript number or a BigNumber object (what
  \<^verbatim>\<open>getCounter\<close> returns). A number is truthy when it is not zero, an object always.
\<close>

datatype counter_value = Number nat | BigNumber nat

record order_components = order_parameters +
  counter :: counter_value

definition truthy :: "counter_value \<Rightarrow> bool" where
  "truthy v = (case v of Number n \<Rightarrow> n \<noteq> 0 | BigNumber n \<Rightarrow> True)"

text \<open>
  What a caller hands to \<^verbatim>\<open>fulfillOrder\<close>, \<^verbatim>\<open>validateOrders\<close> and \<^verbatim>\<open>cancelOrders\<close>:
  an Order (no \<^verbatim>\<open>counter\<close> property) or an Order Components value (no
  \<^verbatim>\<open>parameters\<close> property). \<open>payloadCounter\<close> reads \<^verbatim>\<open>x.counter\<close>, \<open>None\<close> being
  \<^verbatim>\<open>undefined\<close>.
\<close>

datatype payload = AnOrder order | Components order_components

definition payloadCounter :: "payload \<Rightarrow> counter_value option" where
  "payloadCounter x = (case x of AnOrder ord \<Rightarrow> None | Components oc \<Rightarrow> Some (counter oc))"

definition truthyCounter :: "counter_value option \<Rightarrow> bool" where
  "truthyCounter c = (case c of None \<Rightarrow> False | Some v \<Rightarrow> truthy v)"

text \<open>An argument that is one object or an array of them; \<^verbatim>\<open>Array.isArray(x) ? x : [x]\<close>.\<close>

datatype 'a one_or_many = Single 'a | Many "'a list"

definition toArray :: "'a one_or_many \<Rightarrow> 'a list" where
  "toArray x = (case x of Single y \<Rightarrow> [y] | Many ys \<Rightarrow> ys)"

record criteria_resolver =
  cr_orderIndex :: nat
  cr_side :: nat
  cr_index :: nat
  cr_identifier :: nat
  cr_criteriaProof :: "string list"

text \<open>
  The record \<^verbatim>\<open>getBasicOrderParameters\<close> builds. Fields whose name an order already
  uses carry the prefix \<open>basic_\<close>; an additional recipient \<^verbatim>\<open>{amount, recipient}\<close> is a
  pair.
\<close>

record basic_order_parameters =
  basic_offerer :: string
  basic_zone :: string
  basicOrderType :: nat
  offerToken :: string
  offerIdentifier :: nat
  offerAmount :: nat
  considerationToken :: string
  considerationIdentifier :: nat
  considerationAmount :: nat
  basic_startTime :: nat
  basic_endTime :: nat
  basic_zoneHash :: string
  basic_salt :: string
  totalOriginalAdditionalRecipients :: nat
  basic_signature :: string
  offererConduitKey :: string
  fulfillerConduitKey :: string
  additionalRecipients :: "(nat \<times> string option) list"

text \<open>
  The calls the SDK hands to the settlement contract, with their arguments:
  \<^verbatim>\<open>fulfillAdvancedOrder(order, criteriaResolvers, fulfillerConduitKey, recipient, {value})\<close>,
  \<^verbatim>\<open>fulfillBasicOrder(basicOrderParameters, {value})\<close>,
  \<^verbatim>\<open>fulfillOrder(order, fulfillerConduitKey, {value})\<close>, \<^verbatim>\<open>cancel\<close>, \<^verbatim>\<open>validate\<close>,
  \<^verbatim>\<open>matchOrders(orders, fulfillment)\<close>.
\<close>

datatype settlement_call =
    FulfillAdvancedOrder payload "criteria_resolver list" string string nat
  | FulfillBasicOrder basic_order_parameters nat
  | FulfillOrder payload string nat
  | Cancel "payload list"
  | Validate "payload list"
  | MatchOrders "order list" "fulfillment list"

definition AddressZero :: string where
  "AddressZero = ''0x'' @ replicate 40 CHR ''0''"

text \<open>\<^verbatim>\<open>toKey(0)\<close>: \<^verbatim>\<open>"0x"\<close> and the digit 0 padded to 64 characters.\<close>

definition toKeyZero :: string where
  "toKeyZero = ''0x'' @ replicate 64 CHR ''0''"

section \<open>Fulfillment-strategy selection (fulfillOrder)\<close>

text \<open>
  \<^verbatim>\<open>getBasicOrderParameters(basicOrderRouteType, order, fulfillerConduitKey, tips)\<close> with
  \<^verbatim>\<open>fulfillerConduitKey\<close> left at its default \<^verbatim>\<open>false\<close>, as in its one call;
  \<^verbatim>\<open>offer[0]\<close> and \<^verbatim>\<open>consideration[0]\<close> of an empty list are \<^verbatim>\<open>undefined\<close>, and reading
  a property of them raises.
\<close>

definition getBasicOrderParameters ::
  "nat \<Rightarrow> order \<Rightarrow> (nat \<times> string option) list \<Rightarrow> js_error + basic_order_parameters"
where
  "getBasicOrderParameters basicOrderRouteType ord tips =
     (let p = parameters ord in
      case offer p of
        [] \<Rightarrow> Inl TypeError
      | o0 # _ \<Rightarrow>
          (case consideration p of
             [] \<Rightarrow> Inl TypeError
           | c0 # _ \<Rightarrow>
               Inr \<lparr>basic_offerer = offerer p,
                    basic_zone = zone p,
                    basicOrderType = orderType p + 4 * basicOrderRouteType,
                    offerToken = token o0,
                    offerIdentifier = identifierOrCriteria o0,
                    offerAmount = endAmount o0,
                    considerationToken = token c0,
                    considerationIdentifier = identifierOrCriteria c0,
                    considerationAmount = endAmount c0,
                    basic_startTime = startTime p,
                    basic_endTime = endTime p,
                    basic_zoneHash = zoneHash p,
                    basic_salt = salt p,
                    totalOriginalAdditionalRecipients = length (consideration p) - 1,
                    basic_signature = signature ord,
                    offererConduitKey = conduitKey p,
                    fulfillerConduitKey = toKeyZero,
                    additionalRecipients =
                      map (\<lambda>c. (endAmount c, recipient c)) (drop 1 (consideration p)) @ tips\<rparr>))"

text \<open>
  The two \<^verbatim>\<open>for ... of consideration.slice(1)\<close> loops of \<^verbatim>\<open>fulfillOrder\<close>; each returns
  the value \<^verbatim>\<open>isBasic\<close> has when the loop is left.
\<close>

fun restForErc20Offer :: "item list \<Rightarrow> bool" where
  "restForErc20Offer [] = True"
| "restForErc20Offer (c # cs) =
     (if itemType c = 0 \<or> itemType c = 2 \<or> itemType c = 3 then False
      else restForErc20Offer cs)"

fun restSameType :: "nat \<Rightarrow> item list \<Rightarrow> bool" where
  "restSameType cnItemType [] = True"
| "restSameType cnItemType (c # cs) =
     (if itemType c \<noteq> cnItemType then False else restSameType cnItemType cs)"

text \<open>
  The value of \<^verbatim>\<open>isBasic\<close> after the nested conditionals (\<^verbatim>\<open>undefined\<close> counts as
  false in the test that follows).
\<close>

definition isBasic :: "item list \<Rightarrow> item list \<Rightarrow> nat \<Rightarrow> bool" where
  "isBasic offerItems considerationItems cnItemType =
     (if length offerItems = 1 then
        (if itemType (offerItems ! 0) = 1 then
           (if cnItemType = 2 \<or> cnItemType = 3
            then restForErc20Offer (drop 1 considerationItems) else False)
         else
           (if cnItemType = 0 \<or> cnItemType = 1
            then restSameType cnItemType (drop 1 considerationItems) else False))
      else False)"

definition basicOrderRouteType :: "nat \<Rightarrow> nat \<Rightarrow> nat" where
  "basicOrderRouteType offerItemType cnItemType =
     (if offerItemType = 1 then (if cnItemType = 2 then 4 else 5)
      else if offerItemType = 2 then (if cnItemType = 0 then 0 else 2)
      else (if cnItemType = 0 then 1 else 3))"

definition truthyNumber :: "nat option \<Rightarrow> bool" where
  "truthyNumber n = (case n of None \<Rightarrow> False | Some k \<Rightarrow> k \<noteq> 0)"

text \<open>
  \<^verbatim>\<open>fulfillOrder(order, value, criteriaResolvers)\<close>. An Order Components value that gets
  past the counter test has no \<^verbatim>\<open>parameters\<close>, so the destructuring of
  \<^verbatim>\<open>order.parameters\<close> raises.
\<close>

definition fulfillOrder ::
  "payload \<Rightarrow> nat \<Rightarrow> criteria_resolver list \<Rightarrow> js_error + settlement_call"
where
  "fulfillOrder p txValue criteriaResolvers =
     (if truthyCounter (payloadCounter p) then Inl NotOrderComponents
      else
        (case p of
           Components oc \<Rightarrow> Inl TypeError
         | AnOrder ord \<Rightarrow>
             (let offerItems = offer (parameters ord);
                  considerationItems = consideration (parameters ord)
              in if truthyNumber (numerator ord) \<or> length criteriaResolvers > 0
                 then Inr (FulfillAdvancedOrder p criteriaResolvers toKeyZero AddressZero txValue)
                 else
                   (case considerationItems of
                      [] \<Rightarrow> Inl TypeError
                    | c0 # _ \<Rightarrow>
                        (let cnItemType = itemType c0
                         in if isBasic offerItems considerationItems cnItemType
                            then
                              (case getBasicOrderParameters
                                      (basicOrderRouteType (itemType (offerItems ! 0)) cnItemType)
                                      ord [] of
                                 Inl e \<Rightarrow> Inl e
                               | Inr basicOrderParameters \<Rightarrow>
                                   Inr (FulfillBasicOrder basicOrderParameters txValue))
                            else Inr (FulfillOrder p toKeyZero txValue))))))"

section \<open>cancelOrders, validateOrders, matchOrders\<close>

text \<open>The \<^verbatim>\<open>forEach\<close> of each function: it raises at the first element that fails.\<close>

fun cancelCheck :: "payload list \<Rightarrow> js_error option" where
  "cancelCheck [] = None"
| "cancelCheck (x # xs) =
     (if \<not> truthyCounter (payloadCounter x) then Some NotOrder else cancelCheck xs)"

definition cancelOrders :: "payload one_or_many \<Rightarrow> js_error + settlement_call" where
  "cancelOrders orderComponents =
     (let orderComponentsArr = toArray orderComponents
      in case cancelCheck orderComponentsArr of
           Some e \<Rightarrow> Inl e
         | None \<Rightarrow> Inr (Cancel orderComponentsArr))"

fun validateCheck :: "payload list \<Rightarrow> js_error option" where
  "validateCheck [] = None"
| "validateCheck (x # xs) =
     (if truthyCounter (payloadCounter x) then Some NotOrderComponents else validateCheck xs)"

definition validateOrders :: "payload one_or_many \<Rightarrow> js_error + settlement_call" where
  "validateOrders orders =
     (let orderArr = toArray orders
      in case validateCheck orderArr of
           Some e \<Rightarrow> Inl e
         | None \<Rightarrow> Inr (Validate orderArr))"

text \<open>
  \<^verbatim>\<open>matchOrders(order, orderToMatch, gapAsset)\<close>; \<open>None\<close> is a call without gap asset.
  \<^verbatim>\<open>fArr[1][1].push([0, 1])\<close> raises when the array has no second element, before
  anything is pushed on the order. The two orders are two objects.
\<close>

definition matchOrders :: "order \<Rightarrow> order \<Rightarrow> item option \<Rightarrow> js_error + settlement_call" where
  "matchOrders ord orderToMatch gapAsset =
     (case getFulFillmentArrByOrder ord orderToMatch of
        Inl e \<Rightarrow> Inl e
      | Inr fArr \<Rightarrow>
          (case gapAsset of
             None \<Rightarrow> Inr (MatchOrders [ord, orderToMatch] (getFulfillment (Some fArr)))
           | Some gap \<Rightarrow>
               if length fArr < 2 then Inl TypeError
               else
                 (let fArr' = fArr[1 := (fst (fArr ! 1), snd (fArr ! 1) @ [(0, 1)])];
                      ord' = ord\<lparr>parameters :=
                                  (parameters ord)\<lparr>consideration :=
                                     consideration (parameters ord) @ [gap]\<rparr>\<rparr>
                  in Inr (MatchOrders [ord', orderToMatch] (getFulfillment (Some fArr'))))))"

section \<open>Approval oracle (getApprovalStatus)\<close>

text \<open>
  A value handed in as token id, merkle root or amount. The source takes a number, a
  string or a BigNumber there. \<open>JSNumber\<close> is a JavaScript number that is a
  non-negative safe integer (below \<open>2 ^ 53\<close>, hence the 53-bit word); other numbers
  (fractions, negative numbers, larger ones) are not values of this model.
  \<open>JSBigNumber\<close> is a non-negative BigNumber object, \<open>JSString\<close> any string.
\<close>

datatype js_value = JSNumber "53 word" | JSBigNumber nat | JSString string

text \<open>
  The asset object of \<^verbatim>\<open>getApprovalStatus\<close> and \<^verbatim>\<open>getItem\<close>; every property but the item
  type may be missing. Its fields carry the prefix \<open>asset_\<close>, an item having the same
  names.
\<close>

record asset =
  asset_itemType :: nat
  asset_token :: "string option"
  asset_startAmount :: "js_value option"
  asset_endAmount :: "js_value option"
  asset_tokenId :: "js_value option"
  asset_recipient :: "string option"
  asset_root :: "js_value option"

text \<open>
  The remote reads, as functions of the contract address the asset holds (and of the
  token id for \<^verbatim>\<open>getApproved\<close>); they are taken to answer.
\<close>

record provider =
  allowance :: "string option \<Rightarrow> string \<Rightarrow> string \<Rightarrow> nat"
  isApprovedForAll :: "string option \<Rightarrow> string \<Rightarrow> string \<Rightarrow> bool"
  getApproved :: "string option \<Rightarrow> js_value option \<Rightarrow> string"

definition MAX_APPROVAL :: nat where
  "MAX_APPROVAL = 2 ^ 118"

definition toLowerChar :: "char \<Rightarrow> char" where
  "toLowerChar ch =
     (let n = (of_char ch :: nat) in if 65 \<le> n \<and> n \<le> 90 then char_of (n + 32) else ch)"

definition toLowerCase :: "string \<Rightarrow> string" where
  "toLowerCase s = map toLowerChar s"

text \<open>JavaScript's \<^verbatim>\<open>a || b\<close> on numbers: \<open>a\<close> unless it is zero.\<close>

definition js_or :: "nat \<Rightarrow> nat \<Rightarrow> nat" where
  "js_or a b = (if a \<noteq> 0 then a else b)"

text \<open>
  The \<^verbatim>\<open>switch\<close> compares the item type with each label in turn; the labels of the
  third and fourth case are the expressions \<^verbatim>\<open>2 || 4\<close> and \<^verbatim>\<open>3 || 5\<close>.
\<close>

definition getApprovalStatus :: "string \<Rightarrow> string \<Rightarrow> asset \<Rightarrow> provider \<Rightarrow> js_error + bool" where
  "getApprovalStatus walletAddress exchangeAddress a prov =
     (if asset_itemType a = 0 then Inr True
      else if asset_itemType a = 1 then
        Inr (allowance prov (asset_token a) walletAddress exchangeAddress
               \<ge> MAX_APPROVAL - 100000000000000000)
      else if asset_itemType a = js_or 2 4 then
        (let erc721ApprovalForAll = isApprovedForAll prov (asset_token a) walletAddress exchangeAddress;
             erc721ApprovedAddressForId = getApproved prov (asset_token a) (asset_tokenId a);
             tokenIdApproved =
               (toLowerCase erc721ApprovedAddressForId = toLowerCase exchangeAddress)
         in Inr (erc721ApprovalForAll \<or> tokenIdApproved))
      else if asset_itemType a = js_or 3 5 then
        Inr (isApprovedForAll prov (asset_token a) walletAddress exchangeAddress)
      else Inl (UnexpectedItemType (asset_itemType a)))"

section \<open>Item construction (getOfferOrConsiderationItem, getItem)\<close>

text \<open>
  What the code calls and this repository does not hold, as parameters:
  \<open>numberToString16 s\<close> is \<^verbatim>\<open>Number(s).toString(16)\<close> on a string, \<open>bigNumberFrom\<close> is
  \<^verbatim>\<open>BigNumber.from\<close> of ethers on a string, \<open>parseEther\<close> is \<^verbatim>\<open>utils.parseEther\<close>.
  Nothing is assumed of them.
\<close>

record js_env =
  numberToString16 :: "string \<Rightarrow> string"
  bigNumberFrom :: "string \<Rightarrow> js_error + nat"
  parseEther :: "string \<Rightarrow> js_error + nat"

text \<open>
  \<^verbatim>\<open>hexRegex.test(n)\<close> for \<^verbatim>\<open>hexRegex = /[A-Fa-fx]/g\<close>. The expression is global, so
  the search starts at its \<^verbatim>\<open>lastIndex\<close>, which the call sets to the position after
  the match, or to 0 when there is none. The result is the answer and the new
  \<^verbatim>\<open>lastIndex\<close>.
\<close>

definition hexRegexTest :: "nat \<Rightarrow> string \<Rightarrow> bool \<times> nat" where
  "hexRegexTest lastIndex s =
     (let rest = drop lastIndex s;
          before = takeWhile (\<lambda>c. c \<notin> set ''ABCDEFabcdefx'') rest
      in if length before < length rest then (True, lastIndex + length before + 1)
         else (False, 0))"

text \<open>\<^verbatim>\<open>n.replace(/0x/, "")\<close>: the string without the first \<^verbatim>\<open>0x\<close> in it.\<close>

fun removeFirst0x :: "string \<Rightarrow> string" where
  "removeFirst0x (a # b # cs) =
     (if a = CHR ''0'' \<and> b = CHR ''x'' then cs else a # removeFirst0x (b # cs))"
| "removeFirst0x cs = cs"

text \<open>
  \<^verbatim>\<open>toBN(n) = BigNumber.from(toHex(n))\<close>, with the \<^verbatim>\<open>lastIndex\<close> of \<^verbatim>\<open>hexRegex\<close> before
  and after. For a BigNumber and for a safe integer \<^verbatim>\<open>toHex\<close> prints the value's
  hexadecimal digits, which \<^verbatim>\<open>BigNumber.from\<close> reads back: the result is the value.
  For a string, \<^verbatim>\<open>toHex\<close> tests it with \<^verbatim>\<open>hexRegex\<close> and takes the string without
  its first \<^verbatim>\<open>0x\<close>, or \<^verbatim>\<open>Number(n).toString(16)\<close>; \<^verbatim>\<open>BigNumber.from\<close> reads
  \<^verbatim>\<open>"0x"\<close> followed by that, or raises.
\<close>

definition toBN :: "js_env \<Rightarrow> nat \<Rightarrow> js_value \<Rightarrow> (js_error + nat) \<times> nat" where
  "toBN env lastIndex n =
     (case n of
        JSBigNumber b \<Rightarrow> (Inr b, lastIndex)
      | JSString s \<Rightarrow>
          (let tested = hexRegexTest lastIndex s;
               asHexString = (if fst tested then removeFirst0x s else numberToString16 env s)
           in (bigNumberFrom env (''0x'' @ asHexString), snd tested))
      | JSNumber w \<Rightarrow> (Inr (unat w), lastIndex))"

definition orDefault :: "'a \<Rightarrow> 'a option \<Rightarrow> 'a" where
  "orDefault d x = (case x of None \<Rightarrow> d | Some v \<Rightarrow> v)"

text \<open>
  \<^verbatim>\<open>String(x)\<close>: the decimal digits of a safe integer and of a BigNumber (whose
  \<^verbatim>\<open>toString\<close> prints them), a string itself, and \<^verbatim>\<open>"undefined"\<close> for an argument left
  out.
\<close>

function decimal :: "nat \<Rightarrow> string" where
  "decimal n =
     (if n < 10 then [''0123456789'' ! n]
      else decimal (n div 10) @ [''0123456789'' ! (n mod 10)])"
  by pat_completeness auto
termination
  by (relation "measure id") auto

declare decimal.simps [simp del]

definition jsString :: "js_value option \<Rightarrow> string" where
  "jsString x =
     (case x of
        None \<Rightarrow> ''undefined''
      | Some (JSNumber w) \<Rightarrow> decimal (unat w)
      | Some (JSBigNumber b) \<Rightarrow> decimal b
      | Some (JSString s) \<Rightarrow> s)"

text \<open>
  \<^verbatim>\<open>getOfferOrConsiderationItem(itemType = 0, token = constants.AddressZero,
  identifierOrCriteria = 0, startAmount = 1, endAmount = 1, recipient)\<close>. An argument is
  \<open>None\<close> when left out (\<^verbatim>\<open>undefined\<close>), which is when its default applies; the
  recipient is kept when it is a string. The three \<^verbatim>\<open>toBN\<close> calls run in the order of
  the object literal, and the first that raises ends the call. The result comes with the
  \<^verbatim>\<open>lastIndex\<close> of \<^verbatim>\<open>hexRegex\<close> the call leaves behind.
\<close>

definition getOfferOrConsiderationItem ::
  "js_env \<Rightarrow> nat \<Rightarrow> nat option \<Rightarrow> string option \<Rightarrow> js_value option \<Rightarrow> js_value option \<Rightarrow>
     js_value option \<Rightarrow> string option \<Rightarrow> (js_error + item) \<times> nat"
where
  "getOfferOrConsiderationItem env lastIndex itemTypeArg tokenArg identifierArg startAmountArg
       endAmountArg recipientArg =
     (case toBN env lastIndex (orDefault (JSNumber 0) identifierArg) of
        (Inl e, l1) \<Rightarrow> (Inl e, l1)
      | (Inr ident, l1) \<Rightarrow>
          (case toBN env l1 (orDefault (JSNumber 1) startAmountArg) of
             (Inl e, l2) \<Rightarrow> (Inl e, l2)
           | (Inr startA, l2) \<Rightarrow>
               (case toBN env l2 (orDefault (JSNumber 1) endAmountArg) of
                  (Inl e, l3) \<Rightarrow> (Inl e, l3)
                | (Inr endA, l3) \<Rightarrow>
                    (Inr \<lparr>itemType = orDefault 0 itemTypeArg,
                          token = orDefault AddressZero tokenArg,
                          identifierOrCriteria = ident,
                          startAmount = startA,
                          endAmount = endA,
                          recipient = recipientArg\<rparr>, l3))))"

text \<open>
  \<^verbatim>\<open>getItemETH(startAmount, endAmount = startAmount, recipient)\<close> and
  \<^verbatim>\<open>getItem20(token, startAmount, endAmount = startAmount, recipient)\<close>: the two
  \<^verbatim>\<open>parseEther(String(...))\<close> are evaluated first, in this order, and their BigNumbers
  handed on.
\<close>

definition getItemETH ::
  "js_env \<Rightarrow> nat \<Rightarrow> js_value option \<Rightarrow> js_value option \<Rightarrow> string option \<Rightarrow>
     (js_error + item) \<times> nat"
where
  "getItemETH env lastIndex startAmountArg endAmountArg recipientArg =
     (let endAmountArg' = (case endAmountArg of None \<Rightarrow> startAmountArg | Some e \<Rightarrow> Some e)
      in case parseEther env (jsString startAmountArg) of
           Inl e \<Rightarrow> (Inl e, lastIndex)
         | Inr s \<Rightarrow>
             (case parseEther env (jsString endAmountArg') of
                Inl e \<Rightarrow> (Inl e, lastIndex)
              | Inr e' \<Rightarrow>
                  getOfferOrConsiderationItem env lastIndex (Some 0) (Some AddressZero)
                    (Some (JSNumber 0)) (Some (JSBigNumber s)) (Some (JSBigNumber e'))
                    recipientArg))"

definition getItem20 ::
  "js_env \<Rightarrow> nat \<Rightarrow> string option \<Rightarrow> js_value option \<Rightarrow> js_value option \<Rightarrow> string option \<Rightarrow>
     (js_error + item) \<times> nat"
where
  "getItem20 env lastIndex tokenArg startAmountArg endAmountArg recipientArg =
     (let endAmountArg' = (case endAmountArg of None \<Rightarrow> startAmountArg | Some e \<Rightarrow> Some e)
      in case parseEther env (jsString startAmountArg) of
           Inl e \<Rightarrow> (Inl e, lastIndex)
         | Inr s \<Rightarrow>
             (case parseEther env (jsString endAmountArg') of
                Inl e \<Rightarrow> (Inl e, lastIndex)
              | Inr e' \<Rightarrow>
                  getOfferOrConsiderationItem env lastIndex (Some 1) tokenArg
                    (Some (JSNumber 0)) (Some (JSBigNumber s)) (Some (JSBigNumber e'))
                    recipientArg))"

definition getItem721 ::
  "js_env \<Rightarrow> nat \<Rightarrow> string option \<Rightarrow> js_value option \<Rightarrow> string option \<Rightarrow>
     (js_error + item) \<times> nat"
where
  "getItem721 env lastIndex tokenArg identifierArg recipientArg =
     getOfferOrConsiderationItem env lastIndex (Some 2) tokenArg identifierArg
       (Some (JSNumber 1)) (Some (JSNumber 1)) recipientArg"

definition getItem721WithCriteria ::
  "js_env \<Rightarrow> nat \<Rightarrow> string option \<Rightarrow> js_value option \<Rightarrow> string option \<Rightarrow>
     (js_error + item) \<times> nat"
where
  "getItem721WithCriteria env lastIndex tokenArg identifierArg recipientArg =
     getOfferOrConsiderationItem env lastIndex (Some 4) tokenArg identifierArg
       (Some (JSNumber 1)) (Some (JSNumber 1)) recipientArg"

text \<open>
  \<^verbatim>\<open>getItem1155(token, identifierOrCriteria, startAmount = 1, endAmount = startAmount,
  recipient)\<close> and its criteria twin.
\<close>

definition getItem1155 ::
  "js_env \<Rightarrow> nat \<Rightarrow> string option \<Rightarrow> js_value option \<Rightarrow> js_value option \<Rightarrow> js_value option \<Rightarrow>
     string option \<Rightarrow> (js_error + item) \<times> nat"
where
  "getItem1155 env lastIndex tokenArg identifierArg startAmountArg endAmountArg recipientArg =
     (let s = orDefault (JSNumber 1) startAmountArg; e = orDefault s endAmountArg
      in getOfferOrConsiderationItem env lastIndex (Some 3) tokenArg identifierArg (Some s)
           (Some e) recipientArg)"

definition getItem1155WithCriteria ::
  "js_env \<Rightarrow> nat \<Rightarrow> string option \<Rightarrow> js_value option \<Rightarrow> js_value option \<Rightarrow> js_value option \<Rightarrow>
     string option \<Rightarrow> (js_error + item) \<times> nat"
where
  "getItem1155WithCriteria env lastIndex tokenArg identifierArg startAmountArg endAmountArg
       recipientArg =
     (let s = orDefault (JSNumber 1) startAmountArg; e = orDefault s endAmountArg
      in getOfferOrConsiderationItem env lastIndex (Some 5) tokenArg identifierArg (Some s)
           (Some e) recipientArg)"

text \<open>
  The \<^verbatim>\<open>switch\<close> of \<^verbatim>\<open>getItem\<close> has six cases and no default: for another item type the
  function returns \<^verbatim>\<open>undefined\<close>, here \<open>Inr None\<close>.
\<close>

definition someItem :: "(js_error + item) \<times> nat \<Rightarrow> (js_error + item option) \<times> nat" where
  "someItem r = (map_sum id Some (fst r), snd r)"

definition getItem :: "js_env \<Rightarrow> nat \<Rightarrow> asset \<Rightarrow> (js_error + item option) \<times> nat" where
  "getItem env lastIndex a =
     (if asset_itemType a = 0 then
        someItem (getItemETH env lastIndex (asset_startAmount a) (asset_endAmount a)
                    (asset_recipient a))
      else if asset_itemType a = 1 then
        someItem (getItem20 env lastIndex (asset_token a) (asset_startAmount a)
                    (asset_endAmount a) (asset_recipient a))
      else if asset_itemType a = 2 then
        someItem (getItem721 env lastIndex (asset_token a) (asset_tokenId a) (asset_recipient a))
      else if asset_itemType a = 3 then
        someItem (getItem1155 env lastIndex (asset_token a) (asset_tokenId a)
                    (asset_startAmount a) (asset_endAmount a) (asset_recipient a))
      else if asset_itemType a = 4 then
        someItem (getItem721WithCriteria env lastIndex (asset_token a) (asset_root a)
                    (asset_recipient a))
      else if asset_itemType a = 5 then
        someItem (getItem1155WithCriteria env lastIndex (asset_token a) (asset_root a)
                    (asset_startAmount a) (asset_endAmount a) (asset_recipient a))
      else (Inr None, lastIndex))"

text \<open>
  For the theorems: an argument left out or given as a number or a BigNumber, and the
  value such an argument holds.
\<close>

definition numeric :: "js_value option \<Rightarrow> bool" where
  "numeric x = (case x of Some (JSString s) \<Rightarrow> False | _ \<Rightarrow> True)"

definition valueOr :: "nat \<Rightarrow> js_value option \<Rightarrow> nat" where
  "valueOr d x =
     (case x of
        None \<Rightarrow> d
      | Some (JSNumber w) \<Rightarrow> unat w
      | Some (JSBigNumber b) \<Rightarrow> b
      | Some (JSString s) \<Rightarrow> d)"

section \<open>Example orders\<close>

definition exItem :: "nat \<Rightarrow> string \<Rightarrow> nat \<Rightarrow> nat \<Rightarrow> string option \<Rightarrow> item" where
  "exItem t tok ident amt rcp =
     \<lparr>itemType = t, token = tok, identifierOrCriteria = ident, startAmount = amt,
      endAmount = amt, recipient = rcp\<rparr>"

definition exParameters :: "item list \<Rightarrow> item list \<Rightarrow> order_parameters" where
  "exParameters os cs =
     \<lparr>offerer = ''0xA'', zone = ''0x0'', offer = os, consideration = cs,
      totalOriginalConsiderationItems = length cs, orderType = 2, zoneHash = ''0x0'',
      salt = ''0x5'', conduitKey = ''0x0'', startTime = 10, endTime = 20\<rparr>"

definition exOrder :: "item list \<Rightarrow> item list \<Rightarrow> order" where
  "exOrder os cs =
     \<lparr>parameters = exParameters os cs,
      signature = ''0x51'', numerator = None, denominator = None, extraData = None\<rparr>"

text \<open>
  An environment for the examples: its \<^verbatim>\<open>parseEther\<close> reads the string \<^verbatim>\<open>"2"\<close> and
  nothing else.
\<close>

definition exEnv :: js_env where
  "exEnv =
     \<lparr>numberToString16 = (\<lambda>s. s),
      bigNumberFrom = (\<lambda>s. Inl InvalidDecimal),
      parseEther = (\<lambda>s. if s = ''2'' then Inr 2000000000000000000 else Inl InvalidDecimal)\<rparr>"

section \<open>The matcher's loops and their description\<close>

lemma skipItem_Inr: "skipItem oItem c = Inr b \<Longrightarrow> b = (\<not> candidate oItem c)"
  by (auto simp: skipItem_def candidate_def toNumber_def split: if_splits sum.splits)

lemma skipItem_safe:
  "itemType oItem = 1 \<or> (safeItem oItem \<and> safeItem c) \<Longrightarrow>
   skipItem oItem c = Inr (\<not> candidate oItem c)"
  by (auto simp: skipItem_def candidate_def toNumber_def safeItem_def)

lemma skipItem_False_iff:
  "skipItem oItem c = Inr False \<longleftrightarrow>
     token oItem = token c \<and>
     (itemType oItem = 1 \<or>
      (\<exists>n. toNumber (identifierOrCriteria oItem) = Inr n \<and>
           toNumber (identifierOrCriteria c) = Inr n))"
  by (auto simp: skipItem_def split: sum.splits)

lemma skipItem_raises_iff:
  "(\<exists>e. skipItem oItem c = Inl e) \<longleftrightarrow>
     token oItem = token c \<and> itemType oItem \<noteq> 1 \<and>
     (2 ^ 53 \<le> identifierOrCriteria oItem \<or> 2 ^ 53 \<le> identifierOrCriteria c)"
  by (auto simp: skipItem_def toNumber_def)

lemma toNumber_eq_candidate:
  "token oItem = token c \<Longrightarrow> toNumber (identifierOrCriteria oItem) = Inr n \<Longrightarrow>
   toNumber (identifierOrCriteria c) = Inr n \<Longrightarrow> candidate oItem c"
  by (auto simp: candidate_def toNumber_def split: if_splits)

lemma candidates_Nil: "candidates oItem cI [] = []"
  by (simp add: candidates_def)

lemma candidates_Cons:
  "candidates oItem cI (c # cs) =
     (if candidate oItem c then cI # candidates oItem (Suc cI) cs
      else candidates oItem (Suc cI) cs)"
  by (simp add: candidates_def)

lemma emitted_Nil: "emitted oItem cI [] = []"
  by (simp add: emitted_def candidates_def)

lemma emitted_Cons:
  "emitted oItem cI (c # cs) =
     (if candidate oItem c
      then (if itemType oItem = 1 then cI # emitted oItem (Suc cI) cs else [cI])
      else emitted oItem (Suc cI) cs)"
  by (simp add: emitted_def candidates_Cons)

lemma entries_Nil: "entries oRef cOrd [] = []"
  by (simp add: entries_def)

lemma entries_Cons: "entries oRef cOrd (j # js) = ([oRef], [(cOrd, j)]) # entries oRef cOrd js"
  by (simp add: entries_def)

lemma scanLoop_Inr:
  "scanLoop oRef cOrd oItem cs cI fArr = Inr r \<Longrightarrow>
   r = fArr @ entries oRef cOrd (emitted oItem cI cs)"
proof (induction cs arbitrary: cI fArr)
  case Nil
  then show ?case by (simp add: emitted_Nil entries_Nil)
next
  case (Cons c cs)
  show ?case
  proof (cases "skipItem oItem c")
    case (Inl e)
    with Cons.prems show ?thesis by simp
  next
    case (Inr skip)
    then have sk: "skip = (\<not> candidate oItem c)" by (rule skipItem_Inr)
    show ?thesis
    proof (cases skip)
      case True
      with Cons.prems Inr have "scanLoop oRef cOrd oItem cs (Suc cI) fArr = Inr r" by simp
      from Cons.IH[OF this] True sk show ?thesis by (simp add: emitted_Cons)
    next
      case False
      show ?thesis
      proof (cases "itemType oItem = 1")
        case True
        with Cons.prems Inr False
        have "scanLoop oRef cOrd oItem cs (Suc cI) (fArr @ [([oRef], [(cOrd, cI)])]) = Inr r"
          by simp
        from Cons.IH[OF this] True False sk show ?thesis
          by (simp add: emitted_Cons entries_Cons)
      next
        case nonFungible: False
        with Cons.prems Inr False have "r = fArr @ [([oRef], [(cOrd, cI)])]" by simp
        with nonFungible False sk show ?thesis
          by (simp add: emitted_Cons entries_Cons entries_Nil)
      qed
    qed
  qed
qed

lemma scanLoop_returns:
  "itemType oItem = 1 \<or> (safeItem oItem \<and> (\<forall>c\<in>set cs. safeItem c)) \<Longrightarrow>
   scanLoop oRef cOrd oItem cs cI fArr = Inr (fArr @ entries oRef cOrd (emitted oItem cI cs))"
proof (induction cs arbitrary: cI fArr)
  case Nil
  then show ?case by (simp add: emitted_Nil entries_Nil)
next
  case (Cons c cs)
  from Cons.prems have sk: "skipItem oItem c = Inr (\<not> candidate oItem c)"
    by (intro skipItem_safe) auto
  from Cons.prems have p: "itemType oItem = 1 \<or> (safeItem oItem \<and> (\<forall>c\<in>set cs. safeItem c))"
    by auto
  show ?case
    by (simp add: sk Cons.IH[OF p] emitted_Cons entries_Cons entries_Nil)
qed

lemma offerLoop_Inr:
  "offerLoop ordO os oI ordC cnOther cnOwn fArr = Inr r \<Longrightarrow>
   r = fArr @ concat (map (itemPass ordO ordC cnOther cnOwn) (enumerate oI os))"
proof (induction os arbitrary: oI fArr)
  case Nil
  then show ?case by simp
next
  case (Cons oItem os)
  from Cons.prems obtain fArr1 where
    s1: "scanLoop (ordO, oI) ordC oItem cnOther 0 fArr = Inr fArr1"
    by (auto split: sum.splits)
  have f1: "fArr1 = fArr @ entries (ordO, oI) ordC (emitted oItem 0 cnOther)"
    using scanLoop_Inr[OF s1] .
  show ?case
  proof (cases "itemType oItem = 1")
    case False
    with Cons.prems s1 have "offerLoop ordO os (Suc oI) ordC cnOther cnOwn fArr1 = Inr r"
      by simp
    from Cons.IH[OF this] f1 False show ?thesis by (simp add: itemPass_def)
  next
    case True
    with Cons.prems s1 obtain fArr2 where
      s2: "scanLoop (ordO, oI) ordO oItem cnOwn 0 fArr1 = Inr fArr2"
      and rest: "offerLoop ordO os (Suc oI) ordC cnOther cnOwn fArr2 = Inr r"
      by (auto split: sum.splits)
    have f2: "fArr2 = fArr1 @ entries (ordO, oI) ordO (emitted oItem 0 cnOwn)"
      using scanLoop_Inr[OF s2] .
    from Cons.IH[OF rest] f1 f2 True show ?thesis by (simp add: itemPass_def)
  qed
qed

lemma offerLoop_returns:
  "safeScan os cnOther \<Longrightarrow>
   offerLoop ordO os oI ordC cnOther cnOwn fArr =
     Inr (fArr @ concat (map (itemPass ordO ordC cnOther cnOwn) (enumerate oI os)))"
proof (induction os arbitrary: oI fArr)
  case Nil
  then show ?case by simp
next
  case (Cons oItem os)
  from Cons.prems
  have h: "itemType oItem = 1 \<or> (safeItem oItem \<and> (\<forall>c\<in>set cnOther. safeItem c))"
    and t: "safeScan os cnOther"
    by (auto simp: safeScan_def)
  show ?case
  proof (cases "itemType oItem = 1")
    case True
    then show ?thesis
      by (simp add: scanLoop_returns Cons.IH[OF t] itemPass_def)
  next
    case False
    then show ?thesis
      by (simp add: scanLoop_returns[OF h] Cons.IH[OF t] itemPass_def)
  qed
qed

lemma getFulFillmentArrByOrder_Inr:
  "getFulFillmentArrByOrder a b = Inr r \<Longrightarrow>
   r = orderPass 0 (offer (parameters a)) 1 (consideration (parameters b))
         (consideration (parameters a)) @
       orderPass 1 (offer (parameters b)) 0 (consideration (parameters a))
         (consideration (parameters b))"
  by (auto simp: getFulFillmentArrByOrder_def orderPass_def Let_def split: sum.splits
      dest!: offerLoop_Inr)

lemma getFulFillmentArrByOrder_returns:
  "safeScan (offer (parameters a)) (consideration (parameters b)) \<Longrightarrow>
   safeScan (offer (parameters b)) (consideration (parameters a)) \<Longrightarrow>
   getFulFillmentArrByOrder a b = Inr
     (orderPass 0 (offer (parameters a)) 1 (consideration (parameters b))
        (consideration (parameters a)) @
      orderPass 1 (offer (parameters b)) 0 (consideration (parameters a))
        (consideration (parameters b)))"
  by (simp add: getFulFillmentArrByOrder_def orderPass_def Let_def offerLoop_returns)

subsection \<open>Consideration item types play no part\<close>

lemma skipItem_retype: "skipItem oItem (c\<lparr>itemType := t\<rparr>) = skipItem oItem c"
  by (simp add: skipItem_def split: sum.splits)

lemma scanLoop_retype:
  "scanLoop oRef cOrd oItem (retype f cs) cI fArr = scanLoop oRef cOrd oItem cs cI fArr"
proof (induction cs arbitrary: cI fArr)
  case Nil
  show ?case by (simp add: retype_def)
next
  case (Cons c cs)
  have "retype f (c # cs) = c\<lparr>itemType := f c\<rparr> # retype f cs"
    by (simp add: retype_def)
  then show ?case
    by (simp add: skipItem_retype Cons.IH split: sum.splits)
qed

lemma offerLoop_retype:
  "offerLoop ordO os oI ordC (retype f cnOther) (retype g cnOwn) fArr =
   offerLoop ordO os oI ordC cnOther cnOwn fArr"
  by (induction os arbitrary: oI fArr) (simp_all add: scanLoop_retype split: sum.splits)

lemma emitted_first:
  "j < length cs \<Longrightarrow> candidate oItem (cs ! j) \<Longrightarrow> \<forall>k<j. \<not> candidate oItem (cs ! k) \<Longrightarrow>
   itemType oItem \<noteq> 1 \<Longrightarrow> emitted oItem cI cs = [cI + j]"
proof (induction cs arbitrary: j cI)
  case Nil
  then show ?case by simp
next
  case (Cons c cs)
  show ?case
  proof (cases j)
    case 0
    with Cons.prems show ?thesis by (simp add: emitted_Cons)
  next
    case (Suc j')
    with Cons.prems have nc: "\<not> candidate oItem c" by auto
    from Suc Cons.prems have "\<forall>k<j'. \<not> candidate oItem (cs ! k)" by auto
    with Cons.IH[of j' "Suc cI"] Cons.prems Suc nc show ?thesis
      by (simp add: emitted_Cons)
  qed
qed

lemma in_orderPass:
  "i < length os \<Longrightarrow> e \<in> set (itemPass ordO ordC cnOther cnOwn (i, os ! i)) \<Longrightarrow>
   e \<in> set (orderPass ordO os ordC cnOther cnOwn)"
  by (auto simp: orderPass_def in_set_enumerate_eq intro!: bexI[of _ "(i, os ! i)"])

lemma matched_first_candidate:
  assumes "i < length os" "itemType (os ! i) \<noteq> 1" "j < length cnOther"
    "candidate (os ! i) (cnOther ! j)" "\<forall>k<j. \<not> candidate (os ! i) (cnOther ! k)"
  shows "([(ordO, i)], [(ordC, j)]) \<in> set (orderPass ordO os ordC cnOther cnOwn)"
proof -
  have "emitted (os ! i) 0 cnOther = [j]"
    using emitted_first[OF assms(3,4,5,2), of 0] by simp
  then have "([(ordO, i)], [(ordC, j)]) \<in> set (itemPass ordO ordC cnOther cnOwn (i, os ! i))"
    by (simp add: itemPass_def entries_def)
  with assms(1) show ?thesis by (rule in_orderPass)
qed

subsection \<open>Counting references to an offer item\<close>








lemma entries_offer_side: "e \<in> set (entries oRef cOrd js) \<Longrightarrow> fst e = [oRef]"
  by (auto simp: entries_def)

lemma orderPass_offer_side:
  "e \<in> set (orderPass ordO os ordC cnOther cnOwn) \<Longrightarrow> \<exists>i<length os. fst e = [(ordO, i)]"
  by (auto simp: orderPass_def itemPass_def in_set_enumerate_eq dest!: entries_offer_side
      split: if_splits)

subsection \<open>What a non-ERC20 offer item is matched to\<close>

lemma emitted_first_only:
  "itemType oItem \<noteq> 1 \<Longrightarrow> j \<in> set (emitted oItem cI cs) \<Longrightarrow>
   cI \<le> j \<and> j - cI < length cs \<and> candidate oItem (cs ! (j - cI)) \<and>
   (\<forall>k<j - cI. \<not> candidate oItem (cs ! k))"
proof (induction cs arbitrary: cI)
  case Nil
  then show ?case by (simp add: emitted_Nil)
next
  case (Cons c cs)
  show ?case
  proof (cases "candidate oItem c")
    case True
    with Cons.prems show ?thesis by (simp add: emitted_Cons)
  next
    case False
    with Cons.prems have "j \<in> set (emitted oItem (Suc cI) cs)"
      by (simp add: emitted_Cons)
    from Cons.IH[OF Cons.prems(1) this]
    have le: "Suc cI \<le> j" and len: "j - Suc cI < length cs"
      and cand: "candidate oItem (cs ! (j - Suc cI))"
      and first: "\<forall>k<j - Suc cI. \<not> candidate oItem (cs ! k)"
      by blast+
    from le have d: "j - cI = Suc (j - Suc cI)" by arith
    have "\<forall>k<j - cI. \<not> candidate oItem ((c # cs) ! k)"
    proof (intro allI impI)
      fix k assume "k < j - cI"
      with d first False show "\<not> candidate oItem ((c # cs) ! k)"
        by (cases k) auto
    qed
    with le len cand d show ?thesis by simp
  qed
qed

lemma orderPass_member:
  "e \<in> set (orderPass ordO os ordC cnOther cnOwn) \<Longrightarrow>
   \<exists>i<length os. e \<in> set (itemPass ordO ordC cnOther cnOwn (i, os ! i))"
  by (auto simp: orderPass_def in_set_enumerate_eq)

lemma itemPass_offer_side:
  "e \<in> set (itemPass ordO ordC cnOther cnOwn (i, oItem)) \<Longrightarrow> fst e = [(ordO, i)]"
  by (auto simp: itemPass_def dest: entries_offer_side split: if_splits)

lemma nonfungible_entry:
  assumes "e \<in> set (orderPass ordO os ordC cnOther cnOwn)" and "fst e = [(ordO, i)]"
    and "i < length os \<longrightarrow> itemType (os ! i) \<noteq> 1"
  shows "\<exists>j<length cnOther. snd e = [(ordC, j)] \<and> candidate (os ! i) (cnOther ! j) \<and>
           (\<forall>k<j. \<not> candidate (os ! i) (cnOther ! k))"
proof -
  from orderPass_member[OF assms(1)] obtain i' where i': "i' < length os"
    and mem: "e \<in> set (itemPass ordO ordC cnOther cnOwn (i', os ! i'))"
    by blast
  from itemPass_offer_side[OF mem] assms(2) have "i' = i" by simp
  with i' mem assms(3) have nf: "itemType (os ! i) \<noteq> 1"
    and "e \<in> set (entries (ordO, i) ordC (emitted (os ! i) 0 cnOther))"
    by (auto simp: itemPass_def)
  then obtain j where j: "j \<in> set (emitted (os ! i) 0 cnOther)" and e: "snd e = [(ordC, j)]"
    by (auto simp: entries_def)
  from emitted_first_only[OF nf j] e show ?thesis by auto
qed

lemmas matcher_eval =
  getFulFillmentArrByOrder_def skipItem_def toNumber_def exOrder_def exParameters_def
  exItem_def Let_def

section \<open>The scan of one offer item\<close>




section \<open>The array the matcher returns\<close>

text \<open>
  Claim C6, as the code has it. The array is not four complete passes. It is, for each
  offer item of the first order in turn, the scan of the second order's consideration
  list followed, for an ERC20 offer item only, by the scan of the first order's own
  consideration list; then the same for each offer item of the second order, against the
  first order's consideration list and, for ERC20 only, its own. The matcher returns
  whenever every identifier a scan reads fits in 53 bits.
\<close>

theorem matcher_output_order:
  "(safeScan (offer (parameters a)) (consideration (parameters b)) \<and>
    safeScan (offer (parameters b)) (consideration (parameters a)) \<longrightarrow>
      (\<exists>r. getFulFillmentArrByOrder a b = Inr r)) \<and>
   (\<forall>r. getFulFillmentArrByOrder a b = Inr r \<longrightarrow>
      r = concat (map (\<lambda>p. entries (0, fst p) 1 (emitted (snd p) 0 (consideration (parameters b))) @
                           (if itemType (snd p) = 1
                            then entries (0, fst p) 0 (emitted (snd p) 0 (consideration (parameters a)))
                            else []))
                    (enumerate 0 (offer (parameters a)))) @
          concat (map (\<lambda>p. entries (1, fst p) 0 (emitted (snd p) 0 (consideration (parameters a))) @
                           (if itemType (snd p) = 1
                            then entries (1, fst p) 1 (emitted (snd p) 0 (consideration (parameters b)))
                            else []))
                    (enumerate 0 (offer (parameters b)))))"
proof (intro conjI allI impI)
  assume "safeScan (offer (parameters a)) (consideration (parameters b)) \<and>
    safeScan (offer (parameters b)) (consideration (parameters a))"
  then show "\<exists>r. getFulFillmentArrByOrder a b = Inr r"
    by (simp add: getFulFillmentArrByOrder_returns)
next
  fix r assume "getFulFillmentArrByOrder a b = Inr r"
  from getFulFillmentArrByOrder_Inr[OF this]
  show "r = concat (map (\<lambda>p. entries (0, fst p) 1 (emitted (snd p) 0 (consideration (parameters b))) @
                           (if itemType (snd p) = 1
                            then entries (0, fst p) 0 (emitted (snd p) 0 (consideration (parameters a)))
                            else []))
                    (enumerate 0 (offer (parameters a)))) @
          concat (map (\<lambda>p. entries (1, fst p) 0 (emitted (snd p) 0 (consideration (parameters a))) @
                           (if itemType (snd p) = 1
                            then entries (1, fst p) 1 (emitted (snd p) 0 (consideration (parameters b)))
                            else []))
                    (enumerate 0 (offer (parameters b))))"
    unfolding orderPass_def itemPass_def by simp
qed

text \<open>
  Two ERC20 offer items of the first order, both wanted by the second order, the first
  also by the first order itself: the own-list match of item 0 comes before the
  cross-order match of item 1.
\<close>

theorem matcher_output_order_witness:
  "safeScan [exItem 1 ''U'' 0 1 None, exItem 1 ''V'' 0 1 None]
     [exItem 1 ''U'' 0 1 (Some ''0xB''), exItem 1 ''V'' 0 1 (Some ''0xB'')] \<and>
   safeScan [] [exItem 1 ''U'' 0 1 (Some ''0xA'')] \<and>
   getFulFillmentArrByOrder
     (exOrder [exItem 1 ''U'' 0 1 None, exItem 1 ''V'' 0 1 None]
        [exItem 1 ''U'' 0 1 (Some ''0xA'')])
     (exOrder [] [exItem 1 ''U'' 0 1 (Some ''0xB''), exItem 1 ''V'' 0 1 (Some ''0xB'')]) =
     Inr [([(0, 0)], [(1, 0)]), ([(0, 0)], [(0, 0)]), ([(0, 1)], [(1, 1)])]"
  using matcher_output_order
          [of "exOrder [exItem 1 ''U'' 0 1 None, exItem 1 ''V'' 0 1 None]
                 [exItem 1 ''U'' 0 1 (Some ''0xA'')]"
              "exOrder [] [exItem 1 ''U'' 0 1 (Some ''0xB''), exItem 1 ''V'' 0 1 (Some ''0xB'')]"]
  by (simp add: matcher_eval safeScan_def)

text \<open>
  The same pair of orders does not give the four passes one after the other, and an
  ERC721 offer item is not scanned against its own order's consideration list.
\<close>

theorem four_passes_counterexample:
  "getFulFillmentArrByOrder
     (exOrder [exItem 1 ''U'' 0 1 None, exItem 1 ''V'' 0 1 None]
        [exItem 1 ''U'' 0 1 (Some ''0xA'')])
     (exOrder [] [exItem 1 ''U'' 0 1 (Some ''0xB''), exItem 1 ''V'' 0 1 (Some ''0xB'')]) \<noteq>
     Inr (claimedPasses
       (exOrder [exItem 1 ''U'' 0 1 None, exItem 1 ''V'' 0 1 None]
          [exItem 1 ''U'' 0 1 (Some ''0xA'')])
       (exOrder [] [exItem 1 ''U'' 0 1 (Some ''0xB''), exItem 1 ''V'' 0 1 (Some ''0xB'')])) \<and>
   getFulFillmentArrByOrder
     (exOrder [exItem 2 ''T'' 5 1 None] [exItem 2 ''T'' 5 1 (Some ''0xA'')])
     (exOrder [] []) = Inr [] \<and>
   claimedPasses
     (exOrder [exItem 2 ''T'' 5 1 None] [exItem 2 ''T'' 5 1 (Some ''0xA'')])
     (exOrder [] []) = [([(0, 0)], [(0, 0)])]"
  by (simp add: matcher_eval claimedPasses_def scanPass_def emitted_def candidates_def
      candidate_def entries_def)

section \<open>How often an offer item is referenced\<close>




section \<open>The consideration item's type is never compared\<close>

text \<open>
  Claim C10, as the code has it. The matcher never reads the item type of a
  consideration item: writing any other types into the consideration items of both
  orders leaves its result as it is. Where the matcher returns, a non-ERC20 offer item
  of either order is matched to the first consideration item of the other order that
  has its token (the same string) and its identifier (the same number under
  \<^verbatim>\<open>toNumber()\<close>, so both below \<open>2 ^ 53\<close>), whatever that item's type; and to nothing
  else: every element of the result that references the offer item references that
  first candidate of the other order's list, never a later candidate and never an item
  of its own order's list. When the tokens are equal and an identifier is \<open>2 ^ 53\<close> or
  more, the test raises instead of matching.
\<close>

theorem candidate_ignores_consideration_type:
  "skipItem oItem (c\<lparr>itemType := t\<rparr>) = skipItem oItem c \<and>
   getFulFillmentArrByOrder (retypeConsideration f a) (retypeConsideration g b) =
     getFulFillmentArrByOrder a b \<and>
   (\<forall>r i j n.
      getFulFillmentArrByOrder a b = Inr r \<and>
      i < length (offer (parameters a)) \<and> itemType (offer (parameters a) ! i) \<noteq> 1 \<and>
      j < length (consideration (parameters b)) \<and>
      token (offer (parameters a) ! i) = token (consideration (parameters b) ! j) \<and>
      toNumber (identifierOrCriteria (offer (parameters a) ! i)) = Inr n \<and>
      toNumber (identifierOrCriteria (consideration (parameters b) ! j)) = Inr n \<and>
      (\<forall>k<j. \<not> candidate (offer (parameters a) ! i) (consideration (parameters b) ! k))
      \<longrightarrow> ([(0, i)], [(1, j)]) \<in> set r) \<and>
   (\<forall>r i j n.
      getFulFillmentArrByOrder a b = Inr r \<and>
      i < length (offer (parameters b)) \<and> itemType (offer (parameters b) ! i) \<noteq> 1 \<and>
      j < length (consideration (parameters a)) \<and>
      token (offer (parameters b) ! i) = token (consideration (parameters a) ! j) \<and>
      toNumber (identifierOrCriteria (offer (parameters b) ! i)) = Inr n \<and>
      toNumber (identifierOrCriteria (consideration (parameters a) ! j)) = Inr n \<and>
      (\<forall>k<j. \<not> candidate (offer (parameters b) ! i) (consideration (parameters a) ! k))
      \<longrightarrow> ([(1, i)], [(0, j)]) \<in> set r) \<and>
   (\<forall>r i e.
      getFulFillmentArrByOrder a b = Inr r \<and> e \<in> set r \<and> fst e = [(0, i)] \<and>
      itemType (offer (parameters a) ! i) \<noteq> 1
      \<longrightarrow> (\<exists>j<length (consideration (parameters b)).
             snd e = [(1, j)] \<and>
             candidate (offer (parameters a) ! i) (consideration (parameters b) ! j) \<and>
             (\<forall>k<j. \<not> candidate (offer (parameters a) ! i)
                        (consideration (parameters b) ! k)))) \<and>
   (\<forall>r i e.
      getFulFillmentArrByOrder a b = Inr r \<and> e \<in> set r \<and> fst e = [(1, i)] \<and>
      itemType (offer (parameters b) ! i) \<noteq> 1
      \<longrightarrow> (\<exists>j<length (consideration (parameters a)).
             snd e = [(0, j)] \<and>
             candidate (offer (parameters b) ! i) (consideration (parameters a) ! j) \<and>
             (\<forall>k<j. \<not> candidate (offer (parameters b) ! i)
                        (consideration (parameters a) ! k)))) \<and>
   ((\<exists>e. skipItem oItem c = Inl e) \<longleftrightarrow>
      token oItem = token c \<and> itemType oItem \<noteq> 1 \<and>
      (2 ^ 53 \<le> identifierOrCriteria oItem \<or> 2 ^ 53 \<le> identifierOrCriteria c))"
proof (intro conjI allI impI)
  show "skipItem oItem (c\<lparr>itemType := t\<rparr>) = skipItem oItem c"
    by (rule skipItem_retype)
next
  show "getFulFillmentArrByOrder (retypeConsideration f a) (retypeConsideration g b) =
     getFulFillmentArrByOrder a b"
    by (simp add: getFulFillmentArrByOrder_def retypeConsideration_def Let_def
        offerLoop_retype split: sum.splits)
next
  fix r i j n
  assume h: "getFulFillmentArrByOrder a b = Inr r \<and>
      i < length (offer (parameters a)) \<and> itemType (offer (parameters a) ! i) \<noteq> 1 \<and>
      j < length (consideration (parameters b)) \<and>
      token (offer (parameters a) ! i) = token (consideration (parameters b) ! j) \<and>
      toNumber (identifierOrCriteria (offer (parameters a) ! i)) = Inr n \<and>
      toNumber (identifierOrCriteria (consideration (parameters b) ! j)) = Inr n \<and>
      (\<forall>k<j. \<not> candidate (offer (parameters a) ! i) (consideration (parameters b) ! k))"
  then have cand: "candidate (offer (parameters a) ! i) (consideration (parameters b) ! j)"
    by (blast intro: toNumber_eq_candidate)
  from h have "([(0, i)], [(1, j)]) \<in>
      set (orderPass 0 (offer (parameters a)) 1 (consideration (parameters b))
             (consideration (parameters a)))"
    by (intro matched_first_candidate cand) blast+
  with h getFulFillmentArrByOrder_Inr[of a b r] show "([(0, i)], [(1, j)]) \<in> set r"
    by simp
next
  fix r i j n
  assume h: "getFulFillmentArrByOrder a b = Inr r \<and>
      i < length (offer (parameters b)) \<and> itemType (offer (parameters b) ! i) \<noteq> 1 \<and>
      j < length (consideration (parameters a)) \<and>
      token (offer (parameters b) ! i) = token (consideration (parameters a) ! j) \<and>
      toNumber (identifierOrCriteria (offer (parameters b) ! i)) = Inr n \<and>
      toNumber (identifierOrCriteria (consideration (parameters a) ! j)) = Inr n \<and>
      (\<forall>k<j. \<not> candidate (offer (parameters b) ! i) (consideration (parameters a) ! k))"
  then have cand: "candidate (offer (parameters b) ! i) (consideration (parameters a) ! j)"
    by (blast intro: toNumber_eq_candidate)
  from h have "([(1, i)], [(0, j)]) \<in>
      set (orderPass 1 (offer (parameters b)) 0 (consideration (parameters a))
             (consideration (parameters b)))"
    by (intro matched_first_candidate cand) blast+
  with h getFulFillmentArrByOrder_Inr[of a b r] show "([(1, i)], [(0, j)]) \<in> set r"
    by simp
next
  fix r i e
  assume h: "getFulFillmentArrByOrder a b = Inr r \<and> e \<in> set r \<and> fst e = [(0, i)] \<and>
      itemType (offer (parameters a) ! i) \<noteq> 1"
  with getFulFillmentArrByOrder_Inr[of a b r]
  have "e \<in> set (orderPass 0 (offer (parameters a)) 1 (consideration (parameters b))
                    (consideration (parameters a)))"
    by (auto dest: orderPass_offer_side)
  from nonfungible_entry[OF this] h
  show "\<exists>j<length (consideration (parameters b)).
             snd e = [(1, j)] \<and>
             candidate (offer (parameters a) ! i) (consideration (parameters b) ! j) \<and>
             (\<forall>k<j. \<not> candidate (offer (parameters a) ! i)
                        (consideration (parameters b) ! k))"
    by blast
next
  fix r i e
  assume h: "getFulFillmentArrByOrder a b = Inr r \<and> e \<in> set r \<and> fst e = [(1, i)] \<and>
      itemType (offer (parameters b) ! i) \<noteq> 1"
  with getFulFillmentArrByOrder_Inr[of a b r]
  have "e \<in> set (orderPass 1 (offer (parameters b)) 0 (consideration (parameters a))
                    (consideration (parameters b)))"
    by (auto dest: orderPass_offer_side)
  from nonfungible_entry[OF this] h
  show "\<exists>j<length (consideration (parameters a)).
             snd e = [(0, j)] \<and>
             candidate (offer (parameters b) ! i) (consideration (parameters a) ! j) \<and>
             (\<forall>k<j. \<not> candidate (offer (parameters b) ! i)
                        (consideration (parameters a) ! k))"
    by blast
next
  show "(\<exists>e. skipItem oItem c = Inl e) \<longleftrightarrow>
      token oItem = token c \<and> itemType oItem \<noteq> 1 \<and>
      (2 ^ 53 \<le> identifierOrCriteria oItem \<or> 2 ^ 53 \<le> identifierOrCriteria c)"
    by (rule skipItem_raises_iff)
qed

text \<open>
  An ERC721 offer item is matched to a consideration item typed ERC1155 with criteria
  that has its token and identifier.
\<close>

theorem candidate_ignores_consideration_type_witness:
  "getFulFillmentArrByOrder
     (exOrder [exItem 2 ''T'' 5 1 None] [])
     (exOrder [] [exItem 1 ''U'' 0 1 (Some ''0xB''), exItem 5 ''T'' 5 1 (Some ''0xB'')]) =
     Inr [([(0, 0)], [(1, 1)])] \<and>
   itemType (exItem 2 ''T'' 5 1 None) \<noteq> 1 \<and>
   itemType (exItem 5 ''T'' 5 1 (Some ''0xB'')) \<noteq> itemType (exItem 2 ''T'' 5 1 None) \<and>
   token (exItem 2 ''T'' 5 1 None) = token (exItem 5 ''T'' 5 1 (Some ''0xB'')) \<and>
   toNumber (identifierOrCriteria (exItem 2 ''T'' 5 1 None)) = Inr 5 \<and>
   toNumber (identifierOrCriteria (exItem 5 ''T'' 5 1 (Some ''0xB''))) = Inr 5 \<and>
   ([(0, 0)], [(1, 1)]) \<in> set [([(0::nat, 0::nat)], [(1::nat, 1::nat)])] \<and>
   getFulFillmentArrByOrder
     (exOrder [] [exItem 3 ''T'' 5 1 (Some ''0xA'')])
     (exOrder [exItem 2 ''T'' 5 1 None] []) =
     Inr [([(1, 0)], [(0, 0)])] \<and>
   ([(1, 0)], [(0, 0)]) \<in> set [([(1::nat, 0::nat)], [(0::nat, 0::nat)])]"
proof -
  let ?a = "exOrder [exItem 2 ''T'' 5 1 None] []"
  let ?b = "exOrder [] [exItem 1 ''U'' 0 1 (Some ''0xB''), exItem 5 ''T'' 5 1 (Some ''0xB'')]"
  have run: "getFulFillmentArrByOrder ?a ?b = Inr [([(0, 0)], [(1, 1)])]"
    by (simp add: matcher_eval)
  have hyp: "getFulFillmentArrByOrder ?a ?b = Inr [([(0, 0)], [(1, 1)])] \<and>
      0 < length (offer (parameters ?a)) \<and> itemType (offer (parameters ?a) ! 0) \<noteq> 1 \<and>
      1 < length (consideration (parameters ?b)) \<and>
      token (offer (parameters ?a) ! 0) = token (consideration (parameters ?b) ! 1) \<and>
      toNumber (identifierOrCriteria (offer (parameters ?a) ! 0)) = Inr 5 \<and>
      toNumber (identifierOrCriteria (consideration (parameters ?b) ! 1)) = Inr 5 \<and>
      (\<forall>k<1. \<not> candidate (offer (parameters ?a) ! 0) (consideration (parameters ?b) ! k))"
    using run
    by (simp add: exOrder_def exParameters_def exItem_def toNumber_def candidate_def)
  have m: "([(0, 0)], [(1, 1)]) \<in> set [([(0::nat, 0::nat)], [(1::nat, 1::nat)])]"
    using candidate_ignores_consideration_type
            [of _ _ _ _ ?a _ ?b, THEN conjunct2, THEN conjunct2, THEN conjunct1, rule_format,
             OF hyp] .
  have rest: "itemType (exItem 2 ''T'' 5 1 None) \<noteq> 1 \<and>
     itemType (exItem 5 ''T'' 5 1 (Some ''0xB'')) \<noteq> itemType (exItem 2 ''T'' 5 1 None) \<and>
     token (exItem 2 ''T'' 5 1 None) = token (exItem 5 ''T'' 5 1 (Some ''0xB'')) \<and>
     toNumber (identifierOrCriteria (exItem 2 ''T'' 5 1 None)) = Inr 5 \<and>
     toNumber (identifierOrCriteria (exItem 5 ''T'' 5 1 (Some ''0xB''))) = Inr 5"
    by (simp add: exItem_def toNumber_def)
  let ?c = "exOrder [] [exItem 3 ''T'' 5 1 (Some ''0xA'')]"
  let ?d = "exOrder [exItem 2 ''T'' 5 1 None] []"
  have run': "getFulFillmentArrByOrder ?c ?d = Inr [([(1, 0)], [(0, 0)])]"
    by (simp add: matcher_eval)
  have hyp': "getFulFillmentArrByOrder ?c ?d = Inr [([(1, 0)], [(0, 0)])] \<and>
      0 < length (offer (parameters ?d)) \<and> itemType (offer (parameters ?d) ! 0) \<noteq> 1 \<and>
      0 < length (consideration (parameters ?c)) \<and>
      token (offer (parameters ?d) ! 0) = token (consideration (parameters ?c) ! 0) \<and>
      toNumber (identifierOrCriteria (offer (parameters ?d) ! 0)) = Inr 5 \<and>
      toNumber (identifierOrCriteria (consideration (parameters ?c) ! 0)) = Inr 5 \<and>
      (\<forall>k<0. \<not> candidate (offer (parameters ?d) ! 0) (consideration (parameters ?c) ! k))"
    using run'
    by (simp add: exOrder_def exParameters_def exItem_def toNumber_def)
  have m': "([(1, 0)], [(0, 0)]) \<in> set [([(1::nat, 0::nat)], [(0::nat, 0::nat)])]"
    using candidate_ignores_consideration_type
            [of _ _ _ _ ?c _ ?d, THEN conjunct2, THEN conjunct2, THEN conjunct2,
             THEN conjunct1, rule_format, OF hyp'] .
  from run m rest run' m' show ?thesis by blast
qed

text \<open>
  The claim as stated, "matched to any consideration item whose token and identifier are
  equal", fails three ways. Of two such items in the other order's list only the first
  is matched; such an item in the offer item's own order is not matched; and with the
  shared identifier \<open>2 ^ 53\<close> the matcher raises.
\<close>

theorem match_any_equal_item_counterexample:
  "getFulFillmentArrByOrder
     (exOrder [exItem 2 ''T'' 5 1 None] [])
     (exOrder [] [exItem 2 ''T'' 5 1 (Some ''0xB''), exItem 3 ''T'' 5 1 (Some ''0xC'')]) =
     Inr [([(0, 0)], [(1, 0)])] \<and>
   ([(0, 0)], [(1, 1)]) \<notin> set [([(0::nat, 0::nat)], [(1::nat, 0::nat)])] \<and>
   getFulFillmentArrByOrder
     (exOrder [exItem 2 ''T'' 5 1 None] [exItem 2 ''T'' 5 1 (Some ''0xA'')])
     (exOrder [] []) = Inr [] \<and>
   getFulFillmentArrByOrder
     (exOrder [exItem 2 ''T'' (2 ^ 53) 1 None] [])
     (exOrder [] [exItem 2 ''T'' (2 ^ 53) 1 (Some ''0xB'')]) = Inl (Overflow (2 ^ 53))"
  by (simp add: matcher_eval)

section \<open>Approval oracle\<close>

lemma js_or_labels: "js_or 2 4 = 2" "js_or 3 5 = 3"
  by (simp_all add: js_or_def)

lemma getApprovalStatus_erc721:
  "asset_itemType a = 2 \<Longrightarrow>
   getApprovalStatus walletAddress exchangeAddress a prov =
     Inr (isApprovedForAll prov (asset_token a) walletAddress exchangeAddress \<or>
          toLowerCase (getApproved prov (asset_token a) (asset_tokenId a)) =
            toLowerCase exchangeAddress)"
  by (simp add: getApprovalStatus_def js_or_labels)

lemma getApprovalStatus_erc1155:
  "asset_itemType a = 3 \<Longrightarrow>
   getApprovalStatus walletAddress exchangeAddress a prov =
     Inr (isApprovedForAll prov (asset_token a) walletAddress exchangeAddress)"
  by (simp add: getApprovalStatus_def js_or_labels)

text \<open>
  Claim C2 fails on the code. The case labels \<^verbatim>\<open>2 || 4\<close> and \<^verbatim>\<open>3 || 5\<close> are the numbers 2
  and 3, so an asset of type 4 (ERC721 with criteria) or 5 (ERC1155 with criteria) falls
  to the default case: the oracle raises \<^verbatim>\<open>Unexpected itemType\<close> whatever the approvals
  on chain are.
\<close>

theorem getApprovalStatus_criteria_raises:
  "getApprovalStatus walletAddress exchangeAddress (a\<lparr>asset_itemType := 4\<rparr>) prov =
     Inl (UnexpectedItemType 4) \<and>
   getApprovalStatus walletAddress exchangeAddress (a\<lparr>asset_itemType := 5\<rparr>) prov =
     Inl (UnexpectedItemType 5)"
  by (simp add: getApprovalStatus_def js_or_labels)

section \<open>Payload kinds at the API boundary\<close>

lemma fulfillOrder_truthy_counter:
  "truthy (counter oc) \<Longrightarrow> fulfillOrder (Components oc) txValue rs = Inl NotOrderComponents"
  by (simp add: fulfillOrder_def payloadCounter_def truthyCounter_def)

lemma validateCheck_Some:
  "validateCheck xs = Some e \<longleftrightarrow>
     e = NotOrderComponents \<and> (\<exists>x\<in>set xs. truthyCounter (payloadCounter x))"
  by (induction xs) auto

lemma validateOrders_truthy_counter:
  "\<exists>x\<in>set (toArray orders). truthyCounter (payloadCounter x) \<Longrightarrow>
   validateOrders orders = Inl NotOrderComponents"
proof -
  assume "\<exists>x\<in>set (toArray orders). truthyCounter (payloadCounter x)"
  then have "validateCheck (toArray orders) = Some NotOrderComponents"
    by (simp add: validateCheck_Some)
  then show ?thesis by (simp add: validateOrders_def)
qed

lemma cancelCheck_Some:
  "cancelCheck xs = Some e \<longleftrightarrow>
     e = NotOrder \<and> (\<exists>x\<in>set xs. \<not> truthyCounter (payloadCounter x))"
  by (induction xs) auto

lemma cancelOrders_order:
  "AnOrder ord \<in> set (toArray orderComponents) \<Longrightarrow> cancelOrders orderComponents = Inl NotOrder"
proof -
  assume "AnOrder ord \<in> set (toArray orderComponents)"
  moreover have "\<not> truthyCounter (payloadCounter (AnOrder ord))"
    by (simp add: payloadCounter_def truthyCounter_def)
  ultimately have "cancelCheck (toArray orderComponents) = Some NotOrder"
    unfolding cancelCheck_Some by blast
  then show ?thesis by (simp add: cancelOrders_def)
qed

text \<open>
  Claim C8 fails on the code where the counter is the number zero. The guards test the
  counter's truthiness, not its presence: an Order Components value whose counter is the
  JavaScript number 0 passes the guard of \<^verbatim>\<open>validateOrders\<close>, which hands it to the
  settlement contract's \<^verbatim>\<open>validate\<close>; \<^verbatim>\<open>fulfillOrder\<close> passes its guard as well and
  raises only a TypeError when it reads \<^verbatim>\<open>order.parameters\<close>; and \<^verbatim>\<open>cancelOrders\<close>
  refuses this value, which is an Order Components value, as if it were an Order.
\<close>

theorem counter_zero_passes_guard:
  "validateOrders (Single (Components (oc\<lparr>counter := Number 0\<rparr>))) =
     Inr (Validate [Components (oc\<lparr>counter := Number 0\<rparr>)]) \<and>
   fulfillOrder (Components (oc\<lparr>counter := Number 0\<rparr>)) txValue rs = Inl TypeError \<and>
   cancelOrders (Single (Components (oc\<lparr>counter := Number 0\<rparr>))) = Inl NotOrder"
  by (simp add: validateOrders_def fulfillOrder_def cancelOrders_def toArray_def
      payloadCounter_def truthyCounter_def truthy_def)

section \<open>Fulfillment-strategy selection\<close>




lemma basicOrderRouteType_le: "basicOrderRouteType offerItemType cnItemType \<le> 5"
  by (simp add: basicOrderRouteType_def)


lemma fulfillOrder_generic:
  assumes "\<not> truthyNumber (numerator ord)"
    and "consideration (parameters ord) = c0 # rest"
    and "\<not> isBasic (offer (parameters ord)) (c0 # rest) (itemType c0)"
  shows "fulfillOrder (AnOrder ord) txValue [] = Inr (FulfillOrder (AnOrder ord) toKeyZero txValue)"
  using assms
  by (simp add: fulfillOrder_def payloadCounter_def truthyCounter_def Let_def)

lemma fulfillOrder_advanced:
  "truthyNumber (numerator ord) \<or> rs \<noteq> [] \<Longrightarrow>
   fulfillOrder (AnOrder ord) txValue rs =
     Inr (FulfillAdvancedOrder (AnOrder ord) rs toKeyZero AddressZero txValue)"
  by (auto simp: fulfillOrder_def payloadCounter_def truthyCounter_def Let_def)


text \<open>
  Claim C3 fails on the code for an offer item that is neither ERC20, Native, ERC721 nor
  ERC1155. The branch for "the offer item is not ERC20" is a bare \<^verbatim>\<open>else\<close>: an order
  offering an ERC721-with-criteria item for a Native payment, with no numerator and no
  criteria resolvers, is sent to \<^verbatim>\<open>fulfillBasicOrder\<close> (with route 1, the route of an
  ERC1155 offer), not to the generic entry point.
\<close>

theorem criteria_offer_classified_basic:
  "isBasic [exItem 4 ''T'' 7 1 None] [exItem 0 AddressZero 0 100 (Some ''0xA'')] 0 \<and>
   fulfillOrder
     (AnOrder (exOrder [exItem 4 ''T'' 7 1 None] [exItem 0 AddressZero 0 100 (Some ''0xA'')]))
     100 [] =
     Inr (FulfillBasicOrder
       \<lparr>basic_offerer = ''0xA'', basic_zone = ''0x0'', basicOrderType = 6,
        offerToken = ''T'', offerIdentifier = 7, offerAmount = 1,
        considerationToken = AddressZero, considerationIdentifier = 0,
        considerationAmount = 100, basic_startTime = 10, basic_endTime = 20,
        basic_zoneHash = ''0x0'', basic_salt = ''0x5'',
        totalOriginalAdditionalRecipients = 0, basic_signature = ''0x51'',
        offererConduitKey = ''0x0'', fulfillerConduitKey = toKeyZero,
        additionalRecipients = []\<rparr> 100)"
  by (simp add: fulfillOrder_def payloadCounter_def truthyCounter_def truthyNumber_def
      isBasic_def basicOrderRouteType_def getBasicOrderParameters_def exOrder_def
      exParameters_def exItem_def Let_def)



section \<open>matchOrders with a gap asset\<close>

lemma length_getFulfillment: "length (getFulfillment (Some arr)) = length arr"
  by (simp add: getFulfillment_def)

lemma nth_getFulfillment:
  "k < length arr \<Longrightarrow>
   getFulfillment (Some arr) ! k = toFulfillment (fst (arr ! k)) (snd (arr ! k))"
  by (simp add: getFulfillment_def)

text \<open>
  Claim C7, as the code has it. With a gap asset, when the matcher returns at least two
  elements, \<^verbatim>\<open>matchOrders\<close> hands over the first order with the gap item appended to its
  consideration list, and as many fulfillments as the matcher returned elements, all
  unchanged but the second, whose consideration references get one more at their end:
  the fixed reference to item 1 of order 0. That reference is the appended gap item when
  the first order had exactly one consideration item. When the matcher returns fewer
  than two elements the call raises and nothing is handed over.
\<close>

theorem matchOrders_gap_asset:
  "getFulFillmentArrByOrder a b = Inr fArr \<longrightarrow>
     (length fArr < 2 \<longrightarrow> matchOrders a b (Some gap) = Inl TypeError) \<and>
     (2 \<le> length fArr \<longrightarrow>
        (\<exists>fs. matchOrders a b (Some gap) =
                Inr (MatchOrders
                       [a\<lparr>parameters :=
                            (parameters a)\<lparr>consideration :=
                               consideration (parameters a) @ [gap]\<rparr>\<rparr>, b] fs) \<and>
              length fs = length fArr \<and>
              offerComponents (fs ! 1) = toFulfillmentComponents (fst (fArr ! 1)) \<and>
              considerationComponents (fs ! 1) =
                toFulfillmentComponents (snd (fArr ! 1)) @ [\<lparr>orderIndex = 0, itemIndex = 1\<rparr>] \<and>
              (\<forall>k<length fArr. k \<noteq> 1 \<longrightarrow>
                 fs ! k = toFulfillment (fst (fArr ! k)) (snd (fArr ! k))))) \<and>
     (length (consideration (parameters a)) = 1 \<longrightarrow>
        (consideration (parameters a) @ [gap]) ! 1 = gap)"
proof (intro impI conjI)
  assume "getFulFillmentArrByOrder a b = Inr fArr" and "length fArr < 2"
  then show "matchOrders a b (Some gap) = Inl TypeError"
    by (simp add: matchOrders_def)
next
  assume run: "getFulFillmentArrByOrder a b = Inr fArr" and two: "2 \<le> length fArr"
  let ?fArr' = "fArr[1 := (fst (fArr ! 1), snd (fArr ! 1) @ [(0, 1)])]"
  let ?fs = "getFulfillment (Some ?fArr')"
  from run two have call: "matchOrders a b (Some gap) =
      Inr (MatchOrders
             [a\<lparr>parameters :=
                  (parameters a)\<lparr>consideration := consideration (parameters a) @ [gap]\<rparr>\<rparr>, b]
             ?fs)"
    by (simp add: matchOrders_def Let_def)
  have len: "length ?fs = length fArr"
    by (simp add: length_getFulfillment)
  from two have second: "?fs ! 1 =
      toFulfillment (fst (fArr ! 1)) (snd (fArr ! 1) @ [(0, 1)])"
    by (simp add: nth_getFulfillment)
  have others: "\<forall>k<length fArr. k \<noteq> 1 \<longrightarrow>
      ?fs ! k = toFulfillment (fst (fArr ! k)) (snd (fArr ! k))"
    by (simp add: nth_getFulfillment)
  from second have oc: "offerComponents (?fs ! 1) = toFulfillmentComponents (fst (fArr ! 1))"
    and cc: "considerationComponents (?fs ! 1) =
      toFulfillmentComponents (snd (fArr ! 1)) @ [\<lparr>orderIndex = 0, itemIndex = 1\<rparr>]"
    by (simp_all add: toFulfillment_def toFulfillmentComponents_def)
  from call len oc cc others
  show "\<exists>fs. matchOrders a b (Some gap) =
                Inr (MatchOrders
                       [a\<lparr>parameters :=
                            (parameters a)\<lparr>consideration :=
                               consideration (parameters a) @ [gap]\<rparr>\<rparr>, b] fs) \<and>
              length fs = length fArr \<and>
              offerComponents (fs ! 1) = toFulfillmentComponents (fst (fArr ! 1)) \<and>
              considerationComponents (fs ! 1) =
                toFulfillmentComponents (snd (fArr ! 1)) @ [\<lparr>orderIndex = 0, itemIndex = 1\<rparr>] \<and>
              (\<forall>k<length fArr. k \<noteq> 1 \<longrightarrow>
                 fs ! k = toFulfillment (fst (fArr ! k)) (snd (fArr ! k)))"
    by blast
next
  assume "length (consideration (parameters a)) = 1"
  then show "(consideration (parameters a) @ [gap]) ! 1 = gap"
    by (simp add: nth_append)
qed

text \<open>
  An English auction: the seller asks one ERC20 payment for an ERC721 token, the bidder
  offers the ERC20 token; the gap asset is a further ERC20 payment. The reference
  \<open>(0, 1)\<close> added to the second fulfillment is the gap item.
\<close>

theorem matchOrders_gap_asset_witness:
  "getFulFillmentArrByOrder
     (exOrder [exItem 2 ''T'' 5 1 None] [exItem 1 ''U'' 0 90 (Some ''0xA'')])
     (exOrder [exItem 1 ''U'' 0 100 None] [exItem 2 ''T'' 5 1 (Some ''0xB'')]) =
     Inr [([(0, 0)], [(1, 0)]), ([(1, 0)], [(0, 0)])] \<and>
   2 \<le> length [([(0::nat, 0::nat)], [(1::nat, 0::nat)]), ([(1, 0)], [(0, 0)])] \<and>
   matchOrders
     (exOrder [exItem 2 ''T'' 5 1 None] [exItem 1 ''U'' 0 90 (Some ''0xA'')])
     (exOrder [exItem 1 ''U'' 0 100 None] [exItem 2 ''T'' 5 1 (Some ''0xB'')])
     (Some (exItem 1 ''U'' 0 10 (Some ''0xA''))) =
     Inr (MatchOrders
       [(exOrder [exItem 2 ''T'' 5 1 None] [exItem 1 ''U'' 0 90 (Some ''0xA'')])
          \<lparr>parameters :=
             (exParameters [exItem 2 ''T'' 5 1 None] [exItem 1 ''U'' 0 90 (Some ''0xA'')])
               \<lparr>consideration :=
                  [exItem 1 ''U'' 0 90 (Some ''0xA''), exItem 1 ''U'' 0 10 (Some ''0xA'')]\<rparr>\<rparr>,
        exOrder [exItem 1 ''U'' 0 100 None] [exItem 2 ''T'' 5 1 (Some ''0xB'')]]
       [\<lparr>offerComponents = [\<lparr>orderIndex = 0, itemIndex = 0\<rparr>],
         considerationComponents = [\<lparr>orderIndex = 1, itemIndex = 0\<rparr>]\<rparr>,
        \<lparr>offerComponents = [\<lparr>orderIndex = 1, itemIndex = 0\<rparr>],
         considerationComponents =
           [\<lparr>orderIndex = 0, itemIndex = 0\<rparr>, \<lparr>orderIndex = 0, itemIndex = 1\<rparr>]\<rparr>]) \<and>
   length (consideration (parameters
     (exOrder [exItem 2 ''T'' 5 1 None] [exItem 1 ''U'' 0 90 (Some ''0xA'')]))) = 1 \<and>
   getFulFillmentArrByOrder (exOrder [exItem 2 ''T'' 5 1 None] []) (exOrder [] []) = Inr [] \<and>
   matchOrders (exOrder [exItem 2 ''T'' 5 1 None] []) (exOrder [] [])
     (Some (exItem 1 ''U'' 0 10 (Some ''0xA''))) = Inl TypeError"
proof -
  let ?a = "exOrder [exItem 2 ''T'' 5 1 None] [exItem 1 ''U'' 0 90 (Some ''0xA'')]"
  let ?b = "exOrder [exItem 1 ''U'' 0 100 None] [exItem 2 ''T'' 5 1 (Some ''0xB'')]"
  let ?r = "[([(0::nat, 0::nat)], [(1::nat, 0::nat)]), ([(1, 0)], [(0, 0)])]"
  have run: "getFulFillmentArrByOrder ?a ?b = Inr ?r"
    by (simp add: matcher_eval)
  have two: "2 \<le> length ?r" by simp
  from matchOrders_gap_asset[of ?a ?b ?r "exItem 1 ''U'' 0 10 (Some ''0xA'')", THEN mp, OF run,
      THEN conjunct2, THEN conjunct1, THEN mp, OF two]
  obtain fs where call: "matchOrders ?a ?b (Some (exItem 1 ''U'' 0 10 (Some ''0xA''))) =
      Inr (MatchOrders
             [?a\<lparr>parameters :=
                   (parameters ?a)\<lparr>consideration :=
                      consideration (parameters ?a) @ [exItem 1 ''U'' 0 10 (Some ''0xA'')]\<rparr>\<rparr>,
              ?b] fs)"
    and len: "length fs = length ?r"
    and oc: "offerComponents (fs ! 1) = toFulfillmentComponents (fst (?r ! 1))"
    and cc: "considerationComponents (fs ! 1) =
      toFulfillmentComponents (snd (?r ! 1)) @ [\<lparr>orderIndex = 0, itemIndex = 1\<rparr>]"
    and others: "\<forall>k<length ?r. k \<noteq> 1 \<longrightarrow> fs ! k = toFulfillment (fst (?r ! k)) (snd (?r ! k))"
    by blast
  from len obtain f0 f1 where fs: "fs = [f0, f1]"
    by (cases fs; cases "tl fs") auto
  from others[rule_format, of 0] fs have f0: "f0 = toFulfillment [(0, 0)] [(1, 0)]"
    by simp
  from oc cc fs have f1: "f1 = \<lparr>offerComponents = [\<lparr>orderIndex = 1, itemIndex = 0\<rparr>],
         considerationComponents =
           [\<lparr>orderIndex = 0, itemIndex = 0\<rparr>, \<lparr>orderIndex = 0, itemIndex = 1\<rparr>]\<rparr>"
    by (cases f1) (simp add: toFulfillmentComponents_def)
  have a': "?a\<lparr>parameters :=
                   (parameters ?a)\<lparr>consideration :=
                      consideration (parameters ?a) @ [exItem 1 ''U'' 0 10 (Some ''0xA'')]\<rparr>\<rparr> =
      ?a\<lparr>parameters :=
             (exParameters [exItem 2 ''T'' 5 1 None] [exItem 1 ''U'' 0 90 (Some ''0xA'')])
               \<lparr>consideration :=
                  [exItem 1 ''U'' 0 90 (Some ''0xA''), exItem 1 ''U'' 0 10 (Some ''0xA'')]\<rparr>\<rparr>"
    by (simp add: exOrder_def exParameters_def)
  have one: "length (consideration (parameters ?a)) = 1"
    by (simp add: exOrder_def exParameters_def)
  from call fs f0 f1 a' have "matchOrders ?a ?b (Some (exItem 1 ''U'' 0 10 (Some ''0xA''))) =
     Inr (MatchOrders
       [?a\<lparr>parameters :=
             (exParameters [exItem 2 ''T'' 5 1 None] [exItem 1 ''U'' 0 90 (Some ''0xA'')])
               \<lparr>consideration :=
                  [exItem 1 ''U'' 0 90 (Some ''0xA''), exItem 1 ''U'' 0 10 (Some ''0xA'')]\<rparr>\<rparr>, ?b]
       [\<lparr>offerComponents = [\<lparr>orderIndex = 0, itemIndex = 0\<rparr>],
         considerationComponents = [\<lparr>orderIndex = 1, itemIndex = 0\<rparr>]\<rparr>,
        \<lparr>offerComponents = [\<lparr>orderIndex = 1, itemIndex = 0\<rparr>],
         considerationComponents =
           [\<lparr>orderIndex = 0, itemIndex = 0\<rparr>, \<lparr>orderIndex = 0, itemIndex = 1\<rparr>]\<rparr>])"
    by (simp add: toFulfillment_def toFulfillmentComponents_def)
  moreover have none: "getFulFillmentArrByOrder (exOrder [exItem 2 ''T'' 5 1 None] [])
      (exOrder [] []) = Inr []"
    by (simp add: matcher_eval)
  moreover have "matchOrders (exOrder [exItem 2 ''T'' 5 1 None] []) (exOrder [] [])
     (Some (exItem 1 ''U'' 0 10 (Some ''0xA''))) = Inl TypeError"
    using matchOrders_gap_asset[of "exOrder [exItem 2 ''T'' 5 1 None] []" "exOrder [] []" "[]"
        "exItem 1 ''U'' 0 10 (Some ''0xA'')", THEN mp, OF none, THEN conjunct1]
    by simp
  ultimately show ?thesis using run two one by blast
qed

text \<open>
  The sale with a fee leg: the first order has two consideration items, the gap item is
  appended as item 2, and the reference added to the second fulfillment is still
  \<open>(0, 1)\<close>, the fee leg. And on a pair of orders with nothing to match, the call
  raises.
\<close>

theorem gap_reference_counterexample:
  "matchOrders
     (exOrder [exItem 2 ''T'' 5 1 None]
        [exItem 1 ''U'' 0 90 (Some ''0xA''), exItem 1 ''U'' 0 10 (Some ''0xF'')])
     (exOrder [exItem 1 ''U'' 0 100 None] [exItem 2 ''T'' 5 1 (Some ''0xB'')])
     (Some (exItem 1 ''U'' 0 7 (Some ''0xA''))) =
     Inr (MatchOrders
       [(exOrder [exItem 2 ''T'' 5 1 None]
           [exItem 1 ''U'' 0 90 (Some ''0xA''), exItem 1 ''U'' 0 10 (Some ''0xF'')])
          \<lparr>parameters :=
             (exParameters [exItem 2 ''T'' 5 1 None]
                [exItem 1 ''U'' 0 90 (Some ''0xA''), exItem 1 ''U'' 0 10 (Some ''0xF'')])
               \<lparr>consideration :=
                  [exItem 1 ''U'' 0 90 (Some ''0xA''), exItem 1 ''U'' 0 10 (Some ''0xF''),
                   exItem 1 ''U'' 0 7 (Some ''0xA'')]\<rparr>\<rparr>,
        exOrder [exItem 1 ''U'' 0 100 None] [exItem 2 ''T'' 5 1 (Some ''0xB'')]]
       [\<lparr>offerComponents = [\<lparr>orderIndex = 0, itemIndex = 0\<rparr>],
         considerationComponents = [\<lparr>orderIndex = 1, itemIndex = 0\<rparr>]\<rparr>,
        \<lparr>offerComponents = [\<lparr>orderIndex = 1, itemIndex = 0\<rparr>],
         considerationComponents =
           [\<lparr>orderIndex = 0, itemIndex = 0\<rparr>, \<lparr>orderIndex = 0, itemIndex = 1\<rparr>]\<rparr>,
        \<lparr>offerComponents = [\<lparr>orderIndex = 1, itemIndex = 0\<rparr>],
         considerationComponents = [\<lparr>orderIndex = 0, itemIndex = 1\<rparr>]\<rparr>]) \<and>
   [exItem 1 ''U'' 0 90 (Some ''0xA''), exItem 1 ''U'' 0 10 (Some ''0xF''),
    exItem 1 ''U'' 0 7 (Some ''0xA'')] ! 1 \<noteq> exItem 1 ''U'' 0 7 (Some ''0xA'') \<and>
   matchOrders (exOrder [] []) (exOrder [] []) (Some (exItem 1 ''U'' 0 7 (Some ''0xA''))) =
     Inl TypeError"
  by (simp add: matchOrders_def matcher_eval getFulfillment_def toFulfillment_def
      toFulfillmentComponents_def)

section \<open>Item construction\<close>

lemma toBN_numeric:
  "numeric (Some v) \<Longrightarrow> toBN env lastIndex v = (Inr (valueOr d (Some v)), lastIndex)"
  by (cases v) (simp_all add: toBN_def numeric_def valueOr_def)

lemma toBN_defaults:
  "toBN env lastIndex (JSNumber 0) = (Inr 0, lastIndex)"
  "toBN env lastIndex (JSNumber 1) = (Inr 1, lastIndex)"
  by (simp_all add: toBN_def)

lemma toBN_orDefault:
  "numeric x \<Longrightarrow>
   toBN env lastIndex (orDefault (JSNumber 0) x) = (Inr (valueOr 0 x), lastIndex) \<and>
   toBN env lastIndex (orDefault (JSNumber 1) x) = (Inr (valueOr 1 x), lastIndex)"
proof (cases x)
  case None
  then show ?thesis by (simp add: orDefault_def valueOr_def toBN_defaults)
next
  case (Some v)
  moreover assume "numeric x"
  ultimately show ?thesis
    using toBN_numeric[of v env lastIndex 0] toBN_numeric[of v env lastIndex 1]
    by (simp add: orDefault_def)
qed

lemma toBN_error: "toBN env lastIndex v = (Inl err, l') \<Longrightarrow> \<exists>str. bigNumberFrom env str = Inl err"
  by (cases v) (auto simp: toBN_def Let_def)

lemma getOfferOrConsiderationItem_numeric:
  assumes "numeric ident" "numeric s" "numeric e"
  shows "getOfferOrConsiderationItem env lastIndex t tok ident s e r =
     (Inr \<lparr>itemType = orDefault 0 t, token = orDefault AddressZero tok,
           identifierOrCriteria = valueOr 0 ident, startAmount = valueOr 1 s,
           endAmount = valueOr 1 e, recipient = r\<rparr>, lastIndex)"
  using toBN_orDefault[OF assms(1), of env lastIndex]
    toBN_orDefault[OF assms(2), of env lastIndex]
    toBN_orDefault[OF assms(3), of env lastIndex]
  by (simp add: getOfferOrConsiderationItem_def)

lemma numeric_simps:
  "numeric None" "numeric (Some (JSNumber w))" "numeric (Some (JSBigNumber b))"
  by (simp_all add: numeric_def)

text \<open>For an item type the \<^verbatim>\<open>switch\<close> of \<^verbatim>\<open>getItem\<close> does not list, no item and no error.\<close>

lemma getItem_unrecognized:
  "5 < asset_itemType a \<Longrightarrow> getItem env lastIndex a = (Inr None, lastIndex)"
  by (simp add: getItem_def)

text \<open>
  Claim C9, as the code has it. \<^verbatim>\<open>getOfferOrConsiderationItem\<close> checks nothing: every
  item it returns carries the item type it was given (Native when left out), whatever
  the number, and the only errors it raises are those of \<^verbatim>\<open>BigNumber.from\<close> on a string
  argument. An identifier left out becomes zero; a start amount and an end amount left
  out each become 1, the end amount whatever the start amount is; an argument given as a
  safe integer or a BigNumber is stored with its value. Through \<^verbatim>\<open>getItem\<close>, for the
  six item types and such arguments: for the two ERC1155 types the start amount defaults
  to 1 and the end amount to the start amount; for the two ERC721 types both amounts
  are 1; for Native and ERC20 the two amounts are what \<^verbatim>\<open>parseEther\<close> reads from the
  text of the start and end amount, the end amount left out taking the start amount's
  text; and the identifier defaults to zero.
\<close>

theorem item_construction_defaults:
  "(numeric ident \<and> numeric s \<and> numeric e \<longrightarrow>
      getOfferOrConsiderationItem env lastIndex t tok ident s e r =
        (Inr \<lparr>itemType = (case t of None \<Rightarrow> 0 | Some n \<Rightarrow> n),
              token = (case tok of None \<Rightarrow> AddressZero | Some x \<Rightarrow> x),
              identifierOrCriteria = valueOr 0 ident,
              startAmount = valueOr 1 s,
              endAmount = valueOr 1 e,
              recipient = r\<rparr>, lastIndex)) \<and>
   (\<forall>it l'. getOfferOrConsiderationItem env lastIndex t tok ident s e r = (Inr it, l') \<longrightarrow>
      itemType it = (case t of None \<Rightarrow> 0 | Some n \<Rightarrow> n) \<and>
      token it = (case tok of None \<Rightarrow> AddressZero | Some x \<Rightarrow> x) \<and>
      recipient it = r \<and>
      (ident = None \<longrightarrow> identifierOrCriteria it = 0) \<and>
      (s = None \<longrightarrow> startAmount it = 1) \<and>
      (e = None \<longrightarrow> endAmount it = 1)) \<and>
   (\<forall>err l'. getOfferOrConsiderationItem env lastIndex t tok ident s e r = (Inl err, l') \<longrightarrow>
      (\<exists>str. bigNumberFrom env str = Inl err)) \<and>
   ((asset_itemType a = 3 \<or> asset_itemType a = 5) \<and>
    numeric (if asset_itemType a = 3 then asset_tokenId a else asset_root a) \<and>
    numeric (asset_startAmount a) \<and> numeric (asset_endAmount a) \<longrightarrow>
      getItem env lastIndex a =
        (Inr (Some \<lparr>itemType = asset_itemType a,
                    token = (case asset_token a of None \<Rightarrow> AddressZero | Some x \<Rightarrow> x),
                    identifierOrCriteria =
                      valueOr 0 (if asset_itemType a = 3 then asset_tokenId a else asset_root a),
                    startAmount = valueOr 1 (asset_startAmount a),
                    endAmount = valueOr (valueOr 1 (asset_startAmount a)) (asset_endAmount a),
                    recipient = asset_recipient a\<rparr>), lastIndex)) \<and>
   ((asset_itemType a = 2 \<or> asset_itemType a = 4) \<and>
    numeric (if asset_itemType a = 2 then asset_tokenId a else asset_root a) \<longrightarrow>
      getItem env lastIndex a =
        (Inr (Some \<lparr>itemType = asset_itemType a,
                    token = (case asset_token a of None \<Rightarrow> AddressZero | Some x \<Rightarrow> x),
                    identifierOrCriteria =
                      valueOr 0 (if asset_itemType a = 2 then asset_tokenId a else asset_root a),
                    startAmount = 1,
                    endAmount = 1,
                    recipient = asset_recipient a\<rparr>), lastIndex)) \<and>
   ((asset_itemType a = 0 \<or> asset_itemType a = 1) \<and>
    parseEther env (jsString (asset_startAmount a)) = Inr x \<and>
    parseEther env (jsString (case asset_endAmount a of None \<Rightarrow> asset_startAmount a
                              | Some v \<Rightarrow> Some v)) = Inr y \<longrightarrow>
      getItem env lastIndex a =
        (Inr (Some \<lparr>itemType = asset_itemType a,
                    token = (if asset_itemType a = 0 then AddressZero
                             else (case asset_token a of None \<Rightarrow> AddressZero | Some x \<Rightarrow> x)),
                    identifierOrCriteria = 0,
                    startAmount = x,
                    endAmount = y,
                    recipient = asset_recipient a\<rparr>), lastIndex))"
proof -
  {
    assume "numeric ident \<and> numeric s \<and> numeric e"
    then have "getOfferOrConsiderationItem env lastIndex t tok ident s e r =
          (Inr \<lparr>itemType = (case t of None \<Rightarrow> 0 | Some n \<Rightarrow> n),
                token = (case tok of None \<Rightarrow> AddressZero | Some x \<Rightarrow> x),
                identifierOrCriteria = valueOr 0 ident,
                startAmount = valueOr 1 s,
                endAmount = valueOr 1 e,
                recipient = r\<rparr>, lastIndex)"
      by (simp add: getOfferOrConsiderationItem_numeric orDefault_def)
  }
  note c9_numeric = this
  {
    fix it l'
    assume run: "getOfferOrConsiderationItem env lastIndex t tok ident s e r = (Inr it, l')"
    then obtain i l1 sa l2 ea where
      a: "toBN env lastIndex (orDefault (JSNumber 0) ident) = (Inr i, l1)"
      and b: "toBN env l1 (orDefault (JSNumber 1) s) = (Inr sa, l2)"
      and c: "toBN env l2 (orDefault (JSNumber 1) e) = (Inr ea, l')"
      and it: "it = \<lparr>itemType = orDefault 0 t, token = orDefault AddressZero tok,
                     identifierOrCriteria = i, startAmount = sa, endAmount = ea,
                     recipient = r\<rparr>"
      by (auto simp: getOfferOrConsiderationItem_def split: prod.splits sum.splits)
    from a have i0: "ident = None \<longrightarrow> i = 0" by (auto simp: orDefault_def toBN_defaults)
    from b have s0: "s = None \<longrightarrow> sa = 1" by (auto simp: orDefault_def toBN_defaults)
    from c have e0: "e = None \<longrightarrow> ea = 1" by (auto simp: orDefault_def toBN_defaults)
    from it i0 s0 e0
    have "itemType it = (case t of None \<Rightarrow> 0 | Some n \<Rightarrow> n) \<and>
        token it = (case tok of None \<Rightarrow> AddressZero | Some x \<Rightarrow> x) \<and>
        recipient it = r \<and>
        (ident = None \<longrightarrow> identifierOrCriteria it = 0) \<and>
        (s = None \<longrightarrow> startAmount it = 1) \<and>
        (e = None \<longrightarrow> endAmount it = 1)"
      by (simp add: orDefault_def)
  }
  note c9_returned = this
  {
    fix err l'
    assume "getOfferOrConsiderationItem env lastIndex t tok ident s e r = (Inl err, l')"
    then have "\<exists>str. bigNumberFrom env str = Inl err"
      by (auto simp: getOfferOrConsiderationItem_def split: prod.splits sum.splits
          dest: toBN_error)
  }
  note c9_error = this
  {
    assume h: "(asset_itemType a = 3 \<or> asset_itemType a = 5) \<and>
      numeric (if asset_itemType a = 3 then asset_tokenId a else asset_root a) \<and>
      numeric (asset_startAmount a) \<and> numeric (asset_endAmount a)"
    let ?s = "orDefault (JSNumber 1) (asset_startAmount a)"
    let ?e = "orDefault ?s (asset_endAmount a)"
    from h have ns: "numeric (Some ?s)" and ne: "numeric (Some ?e)"
      by (auto simp: orDefault_def numeric_def split: option.splits)
    have vs: "valueOr 1 (Some ?s) = valueOr 1 (asset_startAmount a)"
      by (simp add: orDefault_def valueOr_def split: option.splits)
    from h have ve: "valueOr 1 (Some ?e) =
        valueOr (valueOr 1 (asset_startAmount a)) (asset_endAmount a)"
      by (auto simp: orDefault_def valueOr_def numeric_def split: option.splits js_value.splits)
    let ?i = "if asset_itemType a = 3 then asset_tokenId a else asset_root a"
    from h have ni: "numeric ?i"
      by simp
    from h have g: "getItem env lastIndex a =
        someItem (getOfferOrConsiderationItem env lastIndex (Some (asset_itemType a))
          (asset_token a) ?i (Some ?s) (Some ?e) (asset_recipient a))"
      by (auto simp: getItem_def getItem1155_def getItem1155WithCriteria_def Let_def)
    have "getItem env lastIndex a =
          (Inr (Some \<lparr>itemType = asset_itemType a,
                      token = (case asset_token a of None \<Rightarrow> AddressZero | Some x \<Rightarrow> x),
                      identifierOrCriteria =
                        valueOr 0 (if asset_itemType a = 3 then asset_tokenId a else asset_root a),
                      startAmount = valueOr 1 (asset_startAmount a),
                      endAmount = valueOr (valueOr 1 (asset_startAmount a)) (asset_endAmount a),
                      recipient = asset_recipient a\<rparr>), lastIndex)"
      unfolding g getOfferOrConsiderationItem_numeric[OF ni ns ne] vs ve
      by (simp add: someItem_def orDefault_def)
  }
  note c9_erc1155 = this
  {
    assume h: "(asset_itemType a = 2 \<or> asset_itemType a = 4) \<and>
      numeric (if asset_itemType a = 2 then asset_tokenId a else asset_root a)"
    from h have "getItem env lastIndex a =
          (Inr (Some \<lparr>itemType = asset_itemType a,
                      token = (case asset_token a of None \<Rightarrow> AddressZero | Some x \<Rightarrow> x),
                      identifierOrCriteria =
                        valueOr 0 (if asset_itemType a = 2 then asset_tokenId a else asset_root a),
                      startAmount = 1,
                      endAmount = 1,
                      recipient = asset_recipient a\<rparr>), lastIndex)"
      by (auto simp: getItem_def getItem721_def getItem721WithCriteria_def someItem_def
          getOfferOrConsiderationItem_numeric numeric_simps valueOr_def orDefault_def)
  }
  note c9_erc721 = this
  {
    assume h: "(asset_itemType a = 0 \<or> asset_itemType a = 1) \<and>
      parseEther env (jsString (asset_startAmount a)) = Inr x \<and>
      parseEther env (jsString (case asset_endAmount a of None \<Rightarrow> asset_startAmount a
                                | Some v \<Rightarrow> Some v)) = Inr y"
    from h have "getItem env lastIndex a =
          (Inr (Some \<lparr>itemType = asset_itemType a,
                      token = (if asset_itemType a = 0 then AddressZero
                               else (case asset_token a of None \<Rightarrow> AddressZero | Some x \<Rightarrow> x)),
                      identifierOrCriteria = 0,
                      startAmount = x,
                      endAmount = y,
                      recipient = asset_recipient a\<rparr>), lastIndex)"
      by (auto simp: getItem_def getItemETH_def getItem20_def someItem_def Let_def
          getOfferOrConsiderationItem_numeric numeric_simps valueOr_def orDefault_def)
  }
  note c9_ether = this
  show ?thesis
    using c9_numeric c9_returned c9_error c9_erc1155 c9_erc721 c9_ether by blast
qed

text \<open>
  An ERC1155 asset with start amount 4 and no end amount, an ERC721 asset without token
  id, an ERC20 asset of 2 ether without end amount, and a bare call with item type 3.
\<close>

theorem item_construction_defaults_witness:
  "getItem exEnv 0
     \<lparr>asset_itemType = 3, asset_token = Some ''T'', asset_startAmount = Some (JSNumber 4),
      asset_endAmount = None, asset_tokenId = Some (JSBigNumber 9), asset_recipient = None,
      asset_root = None\<rparr> =
     (Inr (Some \<lparr>itemType = 3, token = ''T'', identifierOrCriteria = 9, startAmount = 4,
                 endAmount = 4, recipient = None\<rparr>), 0) \<and>
   getItem exEnv 0
     \<lparr>asset_itemType = 2, asset_token = Some ''T'', asset_startAmount = None,
      asset_endAmount = None, asset_tokenId = None, asset_recipient = Some ''0xA'',
      asset_root = None\<rparr> =
     (Inr (Some \<lparr>itemType = 2, token = ''T'', identifierOrCriteria = 0, startAmount = 1,
                 endAmount = 1, recipient = Some ''0xA''\<rparr>), 0) \<and>
   parseEther exEnv (jsString (Some (JSNumber 2))) = Inr 2000000000000000000 \<and>
   getItem exEnv 0
     \<lparr>asset_itemType = 1, asset_token = Some ''U'', asset_startAmount = Some (JSNumber 2),
      asset_endAmount = None, asset_tokenId = None, asset_recipient = None,
      asset_root = None\<rparr> =
     (Inr (Some \<lparr>itemType = 1, token = ''U'', identifierOrCriteria = 0,
                 startAmount = 2000000000000000000, endAmount = 2000000000000000000,
                 recipient = None\<rparr>), 0) \<and>
   getOfferOrConsiderationItem exEnv 0 (Some 3) None None None None None =
     (Inr \<lparr>itemType = 3, token = AddressZero, identifierOrCriteria = 0, startAmount = 1,
           endAmount = 1, recipient = None\<rparr>, 0)"
proof -
  let ?a3 = "\<lparr>asset_itemType = 3, asset_token = Some ''T'',
      asset_startAmount = Some (JSNumber 4), asset_endAmount = None,
      asset_tokenId = Some (JSBigNumber 9), asset_recipient = None, asset_root = None\<rparr>"
  let ?a2 = "\<lparr>asset_itemType = 2, asset_token = Some ''T'', asset_startAmount = None,
      asset_endAmount = None, asset_tokenId = None, asset_recipient = Some ''0xA'',
      asset_root = None\<rparr>"
  let ?a1 = "\<lparr>asset_itemType = 1, asset_token = Some ''U'',
      asset_startAmount = Some (JSNumber 2), asset_endAmount = None, asset_tokenId = None,
      asset_recipient = None, asset_root = None\<rparr>"
  have h3: "(asset_itemType ?a3 = 3 \<or> asset_itemType ?a3 = 5) \<and>
    numeric (if asset_itemType ?a3 = 3 then asset_tokenId ?a3 else asset_root ?a3) \<and>
    numeric (asset_startAmount ?a3) \<and> numeric (asset_endAmount ?a3)"
    by (simp add: numeric_def)
  have r3: "getItem exEnv 0 ?a3 =
     (Inr (Some \<lparr>itemType = 3, token = ''T'', identifierOrCriteria = 9, startAmount = 4,
                 endAmount = 4, recipient = None\<rparr>), 0)"
    using item_construction_defaults[of _ _ _ exEnv 0 _ _ _ ?a3, THEN conjunct2, THEN conjunct2,
      THEN conjunct2, THEN conjunct1, THEN mp, OF h3]
    by (simp add: valueOr_def)
  have h2: "(asset_itemType ?a2 = 2 \<or> asset_itemType ?a2 = 4) \<and>
    numeric (if asset_itemType ?a2 = 2 then asset_tokenId ?a2 else asset_root ?a2)"
    by (simp add: numeric_def)
  have r2: "getItem exEnv 0 ?a2 =
     (Inr (Some \<lparr>itemType = 2, token = ''T'', identifierOrCriteria = 0, startAmount = 1,
                 endAmount = 1, recipient = Some ''0xA''\<rparr>), 0)"
    using item_construction_defaults[of _ _ _ exEnv 0 _ _ _ ?a2, THEN conjunct2, THEN conjunct2,
      THEN conjunct2, THEN conjunct2, THEN conjunct1, THEN mp, OF h2]
    by (simp add: valueOr_def)
  have two: "jsString (Some (JSNumber 2)) = ''2''"
    by (simp add: jsString_def decimal.simps[of 2])
  have pe: "parseEther exEnv (jsString (Some (JSNumber 2))) = Inr 2000000000000000000"
    unfolding two by (simp add: exEnv_def)
  have h1: "(asset_itemType ?a1 = 0 \<or> asset_itemType ?a1 = 1) \<and>
    parseEther exEnv (jsString (asset_startAmount ?a1)) = Inr 2000000000000000000 \<and>
    parseEther exEnv (jsString (case asset_endAmount ?a1 of None \<Rightarrow> asset_startAmount ?a1
                                | Some v \<Rightarrow> Some v)) = Inr 2000000000000000000"
    using pe by simp
  have r1: "getItem exEnv 0 ?a1 =
     (Inr (Some \<lparr>itemType = 1, token = ''U'', identifierOrCriteria = 0,
                 startAmount = 2000000000000000000, endAmount = 2000000000000000000,
                 recipient = None\<rparr>), 0)"
    using item_construction_defaults[of _ _ _ exEnv 0 _ _ _ ?a1, THEN conjunct2, THEN conjunct2,
      THEN conjunct2, THEN conjunct2, THEN conjunct2, THEN mp, OF h1]
    by simp
  have h0: "numeric None \<and> numeric None \<and> numeric None"
    by (simp add: numeric_def)
  have r0: "getOfferOrConsiderationItem exEnv 0 (Some 3) None None None None None =
     (Inr \<lparr>itemType = 3, token = AddressZero, identifierOrCriteria = 0, startAmount = 1,
           endAmount = 1, recipient = None\<rparr>, 0)"
    using item_construction_defaults[of None None None exEnv 0 "Some 3" None None,
      THEN conjunct1, THEN mp, OF h0]
    by (simp add: valueOr_def)
  from r3 r2 pe r1 r0 show ?thesis by blast
qed

text \<open>
  An item type outside the six is stored, not refused; the amounts left out are 1, not
  zero; and the end amount left out is 1 when the start amount is 5.
\<close>

theorem item_construction_counterexample:
  "getOfferOrConsiderationItem exEnv 0 (Some 7) None None None None None =
     (Inr \<lparr>itemType = 7, token = AddressZero, identifierOrCriteria = 0, startAmount = 1,
           endAmount = 1, recipient = None\<rparr>, 0) \<and>
   getOfferOrConsiderationItem exEnv 0 (Some 1) (Some ''U'') None (Some (JSNumber 5)) None None =
     (Inr \<lparr>itemType = 1, token = ''U'', identifierOrCriteria = 0, startAmount = 5,
           endAmount = 1, recipient = None\<rparr>, 0)"
  by (simp add: getOfferOrConsiderationItem_def orDefault_def toBN_def)

end
